theory Spec2Isabelle
  imports Complex_Main
begin

section \<open>JavaScript values\<close>

text \<open>
  The client is JavaScript: the bodies it receives are parsed JSON, the fields it keeps are
  whatever those bodies held. A JavaScript number is an IEEE double; the model takes the
  finite ones as reals (no rounding) and keeps \<open>NaN\<close> apart, since comparisons with it
  are false.
\<close>

datatype jsnum = Num real | NaN

datatype jsval =
    JUndefined
  | JNull
  | JBool bool
  | JNum jsnum
  | JStr string
  | JArr "jsval list"
  | JObj "(string \<times> jsval) list"

text \<open>Truthiness, as \<open>!v\<close>, \<open>v || w\<close> and \<open>if (v)\<close> read it.\<close>

fun truthy :: "jsval \<Rightarrow> bool" where
  "truthy JUndefined = False"
| "truthy JNull = False"
| "truthy (JBool b) = b"
| "truthy (JNum (Num x)) = (x \<noteq> 0)"
| "truthy (JNum NaN) = False"
| "truthy (JStr s) = (s \<noteq> [])"
| "truthy (JArr xs) = True"
| "truthy (JObj kvs) = True"

definition js_or :: "jsval \<Rightarrow> jsval \<Rightarrow> jsval" where
  "js_or a b = (if truthy a then a else b)"

definition nullish :: "jsval \<Rightarrow> bool" where
  "nullish v = (v = JUndefined \<or> v = JNull)"

text \<open>
  \<open>member v k\<close> is the property read \<open>v.k\<close> on a value that is neither \<open>null\<close> nor
  \<open>undefined\<close> (on those the read throws a TypeError, which each caller writes out).
  The keys of an object are unique, so the first binding of the list is the binding. The
  names this client reads (\<open>active\<close>, \<open>message\<close>, \<open>error\<close>, the three token fields)
  are on no prototype, so a primitive or an array has none of them.
\<close>

fun member :: "jsval \<Rightarrow> string \<Rightarrow> jsval" where
  "member (JObj kvs) k = (case map_of kvs k of Some v \<Rightarrow> v | None \<Rightarrow> JUndefined)"
| "member v k = JUndefined"

text \<open>
  \<open>k in v\<close>: a TypeError (\<open>None\<close>) unless \<open>v\<close> is an object; on an array none of the
  names asked here is an index or \<open>length\<close>.
\<close>

fun js_in :: "string \<Rightarrow> jsval \<Rightarrow> bool option" where
  "js_in k (JObj kvs) = Some (map_of kvs k \<noteq> None)"
| "js_in k (JArr xs) = Some False"
| "js_in k v = None"


text \<open>
  The coercions of the language that the client leaves to the runtime: the text of a
  number, an array or an object inside a template literal, the number a string, an array or
  an object multiplies as, and the messages the engine gives its TypeErrors: the one of a
  property read on \<open>null\<close> or \<open>undefined\<close>, and the one of \<open>k in v\<close> on a value
  \<open>v\<close> that is not an object. They are parameters of the model.
\<close>

record js_runtime =
  ToString :: "jsval \<Rightarrow> string"
  ToNumber :: "jsval \<Rightarrow> jsnum"
  TypeErrorMessage :: string
  InOperatorMessage :: "string \<Rightarrow> jsval \<Rightarrow> string"

fun to_string :: "js_runtime \<Rightarrow> jsval \<Rightarrow> string" where
  "to_string rt (JStr s) = s"
| "to_string rt JUndefined = ''undefined''"
| "to_string rt JNull = ''null''"
| "to_string rt (JBool b) = (if b then ''true'' else ''false'')"
| "to_string rt v = ToString rt v"

fun to_number :: "js_runtime \<Rightarrow> jsval \<Rightarrow> jsnum" where
  "to_number rt (JNum n) = n"
| "to_number rt JUndefined = NaN"
| "to_number rt JNull = Num 0"
| "to_number rt (JBool b) = Num (if b then 1 else 0)"
| "to_number rt v = ToNumber rt v"

fun num_mul :: "jsnum \<Rightarrow> jsnum \<Rightarrow> jsnum" where
  "num_mul (Num x) (Num y) = Num (x * y)"
| "num_mul a b = NaN"

fun num_add :: "jsnum \<Rightarrow> jsnum \<Rightarrow> jsnum" where
  "num_add (Num x) (Num y) = Num (x + y)"
| "num_add a b = NaN"

fun num_ge :: "jsnum \<Rightarrow> jsnum \<Rightarrow> bool" where
  "num_ge (Num x) (Num y) = (x \<ge> y)"
| "num_ge a b = False"

text \<open>The decimal text of an integer, as a template literal prints an HTTP status.\<close>

function string_of_nat :: "nat \<Rightarrow> string" where
  "string_of_nat n =
     (if n < 10 then [''0123456789'' ! n]
      else string_of_nat (n div 10) @ [''0123456789'' ! (n mod 10)])"
  by pat_completeness auto
termination
  by (relation "measure id") auto

declare string_of_nat.simps [simp del]

definition string_of_int :: "int \<Rightarrow> string" where
  "string_of_int i =
     (if i < 0 then CHR ''-'' # string_of_nat (nat (- i)) else string_of_nat (nat i))"

fun join :: "string \<Rightarrow> string list \<Rightarrow> string" where
  "join sep [] = []"
| "join sep [x] = x"
| "join sep (x # y # ys) = x @ sep @ join sep (y # ys)"

section \<open>Error taxonomy (errors.js)\<close>

datatype error_class =
  TraylinxAuthError | AuthenticationError | TokenExpiredError | NetworkError | ValidationError

record error =
  err_class :: error_class
  err_message :: string
  err_code :: string
  err_status :: "int option"

definition mk_error :: "error_class \<Rightarrow> string \<Rightarrow> string \<Rightarrow> int option \<Rightarrow> error" where
  "mk_error c m k st = \<lparr>err_class = c, err_message = m, err_code = k, err_status = st\<rparr>"

section \<open>What the transport hands back\<close>

record http_response =
  status :: int
  statusText :: string
  data :: jsval

text \<open>
  A rejection of the transport, or any other value that is not one of the library's own
  errors (a TypeError of the engine): \<open>ax_code\<close> is \<open>error.code\<close> (\<open>None\<close> when
  undefined), \<open>ax_response\<close> is \<open>error.response\<close>, \<open>ax_request\<close> says that
  \<open>error.request\<close> is truthy.
\<close>

record axios_error =
  ax_code :: "string option"
  ax_response :: "http_response option"
  ax_request :: bool
  ax_message :: string

datatype http_outcome = Resolved http_response | Rejected axios_error

definition type_error :: "string \<Rightarrow> axios_error" where
  "type_error m = \<lparr>ax_code = None, ax_response = None, ax_request = False, ax_message = m\<rparr>"

section \<open>Retry policy (client.js)\<close>

definition code_truthy :: "axios_error \<Rightarrow> bool" where
  "code_truthy e = (case ax_code e of None \<Rightarrow> False | Some c \<Rightarrow> c \<noteq> [])"

definition code_included :: "axios_error \<Rightarrow> string list \<Rightarrow> bool" where
  "code_included e cs = (case ax_code e of None \<Rightarrow> False | Some c \<Rightarrow> c \<in> set cs)"

definition network_codes :: "string list" where
  "network_codes =
     [''ECONNABORTED'', ''ENOTFOUND'', ''ECONNREFUSED'', ''ECONNRESET'', ''ETIMEDOUT'']"

definition retryableStatuses :: "int list" where
  "retryableStatuses = [429, 500, 502, 503, 504]"

text \<open>\<open>_shouldRetry(error, config)\<close>; the request's \<open>config\<close> is not read.\<close>

definition shouldRetry :: "real \<Rightarrow> axios_error \<Rightarrow> bool" where
  "shouldRetry maxRetries e =
     (if maxRetries = 0 then False
      else if ax_response e = None \<and> \<not> code_truthy e then False
      else if code_truthy e \<and> code_included e network_codes then True
      else (case ax_response e of
              Some r \<Rightarrow> status r \<in> set retryableStatuses
            | None \<Rightarrow> False))"

text \<open>
  \<open>_calculateRetryDelay(retryCount)\<close>, with the value of \<open>Math.random()\<close> as the
  argument \<open>random\<close>.
\<close>

definition calculateRetryDelay :: "real \<Rightarrow> real \<Rightarrow> int \<Rightarrow> real" where
  "calculateRetryDelay baseDelay random retryCount =
     (let exponentialDelay = baseDelay * (2 powi (retryCount - 1));
          jitter = random * 0.1 * exponentialDelay
      in min (exponentialDelay + jitter) 30000)"

text \<open>
  The response interceptor: \<open>attempts k\<close> is what the \<open>k\<close>-th send of the request comes
  back with, \<open>retryCount\<close> is \<open>config.__retryCount\<close>. The sleeps between the sends do
  not change the outcome.
\<close>

function interceptor :: "real \<Rightarrow> (nat \<Rightarrow> http_outcome) \<Rightarrow> nat \<Rightarrow> http_outcome" where
  "interceptor maxRetries attempts retryCount =
     (case attempts retryCount of
        Resolved r \<Rightarrow> Resolved r
      | Rejected e \<Rightarrow>
          if shouldRetry maxRetries e \<and> real retryCount < maxRetries
          then interceptor maxRetries attempts (Suc retryCount)
          else Rejected e)"
  by pat_completeness auto
termination
proof (relation "measure (\<lambda>(m, a, k). nat \<lceil>m\<rceil> - k)", goal_cases)
  case 1
  show ?case by simp
next
  case (2 maxRetries attempts retryCount e)
  then have "int retryCount < \<lceil>maxRetries\<rceil>"
    by (simp add: less_ceiling_iff)
  then show ?case by auto
qed

declare interceptor.simps [simp del]

section \<open>Error normalisation (client.js)\<close>

text \<open>\<open>_handleRequestError(error, context)\<close> always throws; the model returns what it throws.\<close>

definition handleRequestError :: "js_runtime \<Rightarrow> axios_error \<Rightarrow> string \<Rightarrow> error" where
  "handleRequestError rt e context =
     (if ax_code e = Some ''ECONNABORTED'' then
        mk_error NetworkError
          (''Request timeout during '' @ context @
           ''. Check network connectivity and consider increasing timeout.'')
          ''TIMEOUT'' (Some 408)
      else if ax_code e = Some ''ENOTFOUND'' then
        mk_error NetworkError
          (''DNS resolution failed during '' @ context @
           ''. Check the API URL and network connectivity.'')
          ''DNS_ERROR'' (Some 0)
      else if ax_code e = Some ''ECONNREFUSED'' then
        mk_error NetworkError
          (''Connection refused during '' @ context @
           ''. The service may be down or unreachable.'')
          ''CONNECTION_REFUSED'' (Some 0)
      else if ax_code e = Some ''ECONNRESET'' then
        mk_error NetworkError
          (''Connection reset during '' @ context @
           ''. Network connection was interrupted.'')
          ''CONNECTION_RESET'' (Some 0)
      else (case ax_response e of
          Some r \<Rightarrow>
            (let responseData = js_or (data r) (JObj []) in
             if status r = 401 then
               mk_error AuthenticationError
                 (''Authentication failed during '' @ context @ ''. Check client credentials.'')
                 ''INVALID_CREDENTIALS'' (Some 401)
             else if status r = 429 then
               mk_error NetworkError
                 (''Rate limit exceeded during '' @ context @ ''. Please retry after some time.'')
                 ''RATE_LIMIT'' (Some 429)
             else if status r \<ge> 500 \<and> status r < 600 then
               mk_error NetworkError
                 (''Server error ('' @ string_of_int (status r) @ '') during '' @ context @
                  ''. The service may be temporarily unavailable.'')
                 ''SERVER_ERROR'' (Some (status r))
             else
               (let errorMessage =
                      js_or (js_or (js_or (member responseData ''message'')
                                          (member responseData ''error''))
                                   (JStr (statusText r)))
                            (JStr ''Unknown error'')
                in mk_error NetworkError
                     (''HTTP error ('' @ string_of_int (status r) @ '') during '' @ context @
                      '': '' @ to_string rt errorMessage)
                     ''HTTP_ERROR'' (Some (status r))))
        | None \<Rightarrow>
            if ax_request e then
              mk_error NetworkError
                (''Network request failed during '' @ context @
                 ''. No response received from server.'')
                ''NO_RESPONSE'' (Some 0)
            else
              mk_error TraylinxAuthError
                (''Unexpected error during '' @ context @ '': '' @ ax_message e)
                ''UNKNOWN_ERROR'' None))"

section \<open>The client and its environment (client.js)\<close>

datatype body = Form "(string \<times> jsval) list" | Json jsval

text \<open>The arguments of one \<open>axiosInstance.post(url, data, {headers})\<close>.\<close>

record http_request =
  req_url :: string
  req_body :: body
  req_headers :: "(string \<times> jsval) list"

record config =
  cfg_clientId :: string
  cfg_clientSecret :: string
  cfg_apiBaseUrl :: string
  cfg_agentUserId :: string
  cfg_timeout :: real
  cfg_maxRetries :: real
  cfg_retryDelay :: real
  cfg_cacheTokens :: bool
  cfg_logLevel :: string

text \<open>
  The fields of a \<open>TraylinxAuthClient\<close>, and two counters of what it has asked of its
  environment: \<open>ticks\<close> counts the reads of \<open>Date.now()\<close>, \<open>sent\<close> lists the
  requests handed to the transport, oldest first.
\<close>

record client =
  config :: config
  clientId :: string
  clientSecret :: string
  apiBaseUrl :: string
  agentUserId :: string
  accessToken :: jsval
  agentSecretToken :: jsval
  tokenExpiration :: jsval
  ticks :: nat
  sent :: "http_request list"

text \<open>
  The environment: the runtime's coercions, the clock (\<open>clock w k\<close> is what the
  \<open>k\<close>-th read of \<open>Date.now()\<close> returns), the authority and the peers (\<open>server w n r\<close>
  is how the transport settles request \<open>r\<close>, the \<open>n\<close>-th one sent, after the retries
  of its interceptor), and \<open>uuidv4()\<close>.
\<close>

record world =
  rt :: js_runtime
  clock :: "nat \<Rightarrow> real"
  server :: "nat \<Rightarrow> http_request \<Rightarrow> http_outcome"
  uuid :: "nat \<Rightarrow> string"

definition date_now :: "world \<Rightarrow> client \<Rightarrow> real \<times> client" where
  "date_now w s = (clock w (ticks s), s\<lparr>ticks := Suc (ticks s)\<rparr>)"

definition send :: "http_request \<Rightarrow> client \<Rightarrow> client" where
  "send r s = s\<lparr>sent := sent s @ [r]\<rparr>"

definition post :: "world \<Rightarrow> http_request \<Rightarrow> client \<Rightarrow> http_outcome \<times> client" where
  "post w r s = (server w (length (sent s)) r, send r s)"

subsection \<open>Token refresh\<close>

definition token_request :: "client \<Rightarrow> http_request" where
  "token_request s =
     \<lparr>req_url = apiBaseUrl s @ ''/oauth/token'',
      req_body = Form [(''grant_type'', JStr ''client_credentials''),
                       (''client_id'', JStr (clientId s)),
                       (''client_secret'', JStr (clientSecret s)),
                       (''scope'', JStr ''a2a'')],
      req_headers = [(''Content-Type'', JStr ''application/x-www-form-urlencoded'')]\<rparr>"

definition requiredFields :: "string list" where
  "requiredFields = [''access_token'', ''agent_secret_token'', ''expires_in'']"

text \<open>
  \<open>requiredFields.filter(field => !(field in tokenData))\<close>; \<open>Inl field\<close> is the
  TypeError of \<open>field in tokenData\<close> on a body that is not an object, thrown at the first
  field asked.
\<close>

fun filter_missing :: "string list \<Rightarrow> jsval \<Rightarrow> string + string list" where
  "filter_missing [] tokenData = Inr []"
| "filter_missing (field # others) tokenData =
     (case js_in field tokenData of
        None \<Rightarrow> Inl field
      | Some present \<Rightarrow>
          (case filter_missing others tokenData of
             Inl thrown \<Rightarrow> Inl thrown
           | Inr rest \<Rightarrow> Inr (if \<not> present then field # rest else rest)))"

text \<open>
  \<open>_fetchTokens\<close> from the point where the awaited POST settles with \<open>out\<close>: the
  rest of the \<open>try\<close> block, and the \<open>catch\<close>.
\<close>

definition fetchTokens_settle ::
  "world \<Rightarrow> http_outcome \<Rightarrow> client \<Rightarrow> (error + unit) \<times> client" where
  "fetchTokens_settle w out s =
     (case out of
        Rejected e \<Rightarrow> (Inl (handleRequestError (rt w) e ''token fetch''), s)
      | Resolved response \<Rightarrow>
          (let tokenData = data response in
           case filter_missing requiredFields tokenData of
             Inl field \<Rightarrow>
               (Inl (handleRequestError (rt w)
                       (type_error (InOperatorMessage (rt w) field tokenData)) ''token fetch''), s)
           | Inr missingFields \<Rightarrow>
               if length missingFields > 0 then
                 (Inl (mk_error AuthenticationError
                         (''Invalid token response: missing fields '' @
                          join '', '' missingFields)
                         ''MALFORMED_TOKEN_RESPONSE'' (Some 200)), s)
               else
                 (let (now, s1) = date_now w s in
                  (Inr (),
                   s1\<lparr>accessToken := member tokenData ''access_token'',
                      agentSecretToken := member tokenData ''agent_secret_token'',
                      tokenExpiration :=
                        JNum (num_add (Num now)
                               (num_mul (to_number (rt w) (member tokenData ''expires_in''))
                                        (Num 1000)))\<rparr>))))"

definition fetchTokens :: "world \<Rightarrow> client \<Rightarrow> (error + unit) \<times> client" where
  "fetchTokens w s =
     (let (out, s1) = post w (token_request s) s in fetchTokens_settle w out s1)"

subsection \<open>The two accessors\<close>

datatype accessor = GetAccessToken | GetAgentSecretToken

definition token_of :: "accessor \<Rightarrow> client \<Rightarrow> jsval" where
  "token_of a s = (case a of GetAccessToken \<Rightarrow> accessToken s
                           | GetAgentSecretToken \<Rightarrow> agentSecretToken s)"

text \<open>
  \<open>getAccessToken\<close> and \<open>getAgentSecretToken\<close> are the same code on two fields, with
  two messages; \<open>get_token\<close> is that code with the field as its argument.

  The guard \<open>!this.token || Date.now() >= this.tokenExpiration\<close>; the clock is read
  only when the token is truthy.
\<close>

definition needs_fetch :: "world \<Rightarrow> accessor \<Rightarrow> client \<Rightarrow> bool \<times> client" where
  "needs_fetch w a s =
     (if \<not> truthy (token_of a s) then (True, s)
      else (let (now, s1) = date_now w s
            in (num_ge (Num now) (to_number (rt w) (tokenExpiration s)), s1)))"

text \<open>The second \<open>if\<close> of an accessor and its \<open>return\<close>.\<close>

definition token_or_throw :: "accessor \<Rightarrow> client \<Rightarrow> error + jsval" where
  "token_or_throw a s =
     (if \<not> truthy (token_of a s) then
        Inl (mk_error TokenExpiredError
               (case a of
                  GetAccessToken \<Rightarrow>
                    ''Access token is not available. Token fetch may have failed.''
                | GetAgentSecretToken \<Rightarrow>
                    ''Agent secret token is not available. Token fetch may have failed.'')
               ''TOKEN_UNAVAILABLE'' (Some 401))
      else Inr (token_of a s))"

definition get_token :: "world \<Rightarrow> accessor \<Rightarrow> client \<Rightarrow> (error + jsval) \<times> client" where
  "get_token w a s =
     (let (need, s1) = needs_fetch w a s in
      if need then
        (case fetchTokens w s1 of
           (Inl e, s2) \<Rightarrow> (Inl e, s2)
         | (Inr u, s2) \<Rightarrow> (token_or_throw a s2, s2))
      else (token_or_throw a s1, s1))"

definition getAccessToken :: "world \<Rightarrow> client \<Rightarrow> (error + jsval) \<times> client" where
  "getAccessToken w s = get_token w GetAccessToken s"

definition getAgentSecretToken :: "world \<Rightarrow> client \<Rightarrow> (error + jsval) \<times> client" where
  "getAgentSecretToken w s = get_token w GetAgentSecretToken s"

subsection \<open>Header sets\<close>

definition bearer :: "js_runtime \<Rightarrow> jsval \<Rightarrow> jsval" where
  "bearer r token = JStr (''Bearer '' @ to_string r token)"




subsection \<open>Introspection\<close>

definition introspect_request :: "js_runtime \<Rightarrow> client \<Rightarrow> jsval \<Rightarrow> jsval \<Rightarrow> jsval \<Rightarrow> http_request" where
  "introspect_request r s access token userId =
     \<lparr>req_url = apiBaseUrl s @ ''/oauth/agent/introspect'',
      req_body = Form [(''agent_secret_token'', token), (''agent_user_id'', userId)],
      req_headers = [(''Authorization'', bearer r access),
                     (''Content-Type'', JStr ''application/x-www-form-urlencoded'')]\<rparr>"

text \<open>
  \<open>validateToken\<close> from the point where the introspection POST settles: the read of
  \<open>response.data.active\<close> throws on a \<open>null\<close> or \<open>undefined\<close> body, and the inner
  \<open>catch\<close> turns that into an AuthenticationError.
\<close>

definition validateToken_settle :: "js_runtime \<Rightarrow> http_outcome \<Rightarrow> error + bool" where
  "validateToken_settle r out =
     (case out of
        Rejected e \<Rightarrow> Inl (handleRequestError r e ''token validation'')
      | Resolved response \<Rightarrow>
          if status response = 200 then
            (if nullish (data response) then
               Inl (mk_error AuthenticationError
                      (''Failed to parse token validation response: '' @ TypeErrorMessage r)
                      ''INVALID_VALIDATION_RESPONSE'' (Some 200))
             else Inr (member (data response) ''active'' = JBool True))
          else if status response = 401 then
            Inl (mk_error AuthenticationError
                   ''Access token invalid for token validation''
                   ''INVALID_ACCESS_TOKEN'' (Some 401))
          else Inr False)"

definition validateToken ::
  "world \<Rightarrow> jsval \<Rightarrow> jsval \<Rightarrow> client \<Rightarrow> (error + bool) \<times> client" where
  "validateToken w token userId s =
     (case getAccessToken w s of
        (Inl e, s1) \<Rightarrow> (Inl e, s1)
      | (Inr access, s1) \<Rightarrow>
          (let (out, s2) = post w (introspect_request (rt w) s1 access token userId) s1
           in (validateToken_settle (rt w) out, s2)))"

subsection \<open>JSON-RPC\<close>

definition own_rpc_endpoint :: "client \<Rightarrow> string" where
  "own_rpc_endpoint s = apiBaseUrl s @ ''/a2a/rpc''"

text \<open>\<open>rpcUrl || `${this.apiBaseUrl}/a2a/rpc`\<close>: \<open>null\<close> and the empty string both give way.\<close>

definition rpc_target :: "client \<Rightarrow> string option \<Rightarrow> string" where
  "rpc_target s rpcUrl =
     (case rpcUrl of
        Some u \<Rightarrow> if u \<noteq> [] then u else own_rpc_endpoint s
      | None \<Rightarrow> own_rpc_endpoint s)"

text \<open>
  The flag after the auto-detection; \<open>includeAgentCredentials\<close> is \<open>None\<close> for
  \<open>null\<close> (the default) and \<open>Some b\<close> for a boolean the caller gave.
\<close>

definition rpc_include :: "client \<Rightarrow> string option \<Rightarrow> bool option \<Rightarrow> bool" where
  "rpc_include s rpcUrl includeAgentCredentials =
     (case includeAgentCredentials of
        None \<Rightarrow> rpc_target s rpcUrl \<noteq> own_rpc_endpoint s
      | Some b \<Rightarrow> b)"

definition rpc_payload :: "world \<Rightarrow> client \<Rightarrow> string \<Rightarrow> jsval \<Rightarrow> jsval" where
  "rpc_payload w s method params =
     JObj [(''jsonrpc'', JStr ''2.0''), (''method'', JStr method), (''params'', params),
           (''id'', JStr (uuid w (length (sent s))))]"

text \<open>
  \<open>rpcCall\<close> up to the request it hands to the transport. The accessor runs outside
  the \<open>try\<close>, so its error leaves the call as it is.
\<close>

definition rpcCall_request ::
  "world \<Rightarrow> string \<Rightarrow> jsval \<Rightarrow> string option \<Rightarrow> bool option \<Rightarrow> client
     \<Rightarrow> (error + http_request) \<times> client" where
  "rpcCall_request w method params rpcUrl includeAgentCredentials s =
     (let target = rpc_target s rpcUrl;
          payload = rpc_payload w s method params;
          headers = [(''Content-Type'', JStr ''application/json'')]
      in if rpc_include s rpcUrl includeAgentCredentials then
           (case getAgentSecretToken w s of
              (Inl e, s1) \<Rightarrow> (Inl e, s1)
            | (Inr secret, s1) \<Rightarrow>
                (Inr \<lparr>req_url = target, req_body = Json payload,
                      req_headers = headers @ [(''X-Agent-Secret-Token'', secret),
                                               (''X-Agent-User-Id'', JStr (agentUserId s1))]\<rparr>,
                 s1))
         else
           (case getAccessToken w s of
              (Inl e, s1) \<Rightarrow> (Inl e, s1)
            | (Inr access, s1) \<Rightarrow>
                (Inr \<lparr>req_url = target, req_body = Json payload,
                      req_headers = headers @ [(''Authorization'', bearer (rt w) access)]\<rparr>,
                 s1)))"

definition rpc_number :: "int \<Rightarrow> jsval" where
  "rpc_number n = JNum (Num (of_int n))"

text \<open>What \<open>rpcCall\<close> makes of the settled POST.\<close>

definition rpcCall_settle :: "js_runtime \<Rightarrow> string \<Rightarrow> http_outcome \<Rightarrow> error + jsval" where
  "rpcCall_settle r method out =
     (case out of
        Rejected e \<Rightarrow> Inl (handleRequestError r e (''RPC call to '' @ method))
      | Resolved response \<Rightarrow>
          (let result = data response in
           if nullish result then
             Inl (mk_error TraylinxAuthError
                    (''Failed to parse RPC response: '' @ TypeErrorMessage r)
                    ''INVALID_RPC_RESPONSE'' (Some 200))
           else if truthy (member result ''error'') then
             (let errorInfo = member result ''error'';
                  errorCode = js_or (member errorInfo ''code'') (JStr ''RPC_ERROR'');
                  errorMessage = js_or (member errorInfo ''message'') (JStr ''RPC call failed'')
              in if errorCode = rpc_number (- 32600) then
                   Inl (mk_error ValidationError
                          (''Invalid RPC request: '' @ to_string r errorMessage)
                          ''INVALID_RPC_REQUEST'' (Some 400))
                 else if errorCode = rpc_number (- 32601) then
                   Inl (mk_error ValidationError
                          (''RPC method '' @ [CHR 0x27] @ method @ [CHR 0x27] @
                           '' not found: '' @ to_string r errorMessage)
                          ''METHOD_NOT_FOUND'' (Some 404))
                 else if errorCode = rpc_number (- 32602) then
                   Inl (mk_error ValidationError
                          (''Invalid RPC parameters: '' @ to_string r errorMessage)
                          ''INVALID_RPC_PARAMS'' (Some 400))
                 else
                   Inl (mk_error TraylinxAuthError
                          (''RPC error ('' @ to_string r errorCode @ ''): '' @
                           to_string r errorMessage)
                          (to_string r errorCode) (Some 500)))
           else Inr result))"

definition rpcCall ::
  "world \<Rightarrow> string \<Rightarrow> jsval \<Rightarrow> string option \<Rightarrow> bool option \<Rightarrow> client
     \<Rightarrow> (error + jsval) \<times> client" where
  "rpcCall w method params rpcUrl includeAgentCredentials s =
     (case rpcCall_request w method params rpcUrl includeAgentCredentials s of
        (Inl e, s1) \<Rightarrow> (Inl e, s1)
      | (Inr request, s1) \<Rightarrow>
          (let (out, s2) = post w request s1 in (rpcCall_settle (rt w) method out, s2)))"

section \<open>Inbound headers: detection and dual validation (client.js)\<close>

text \<open>
  An inbound header object, as its entries in the order of \<open>Object.keys\<close>; names and
  values are strings. A character of the model is a code unit below 256, which is what a
  header name or value holds (the HTTP parser decodes them as Latin-1). On those,
  \<open>toLowerCase\<close> maps the letters A to Z and the accented capitals 0xC0 to 0xDE (but not
  the multiplication sign 0xD7) to the code unit 32 above, and \<open>trim\<close> strips the white
  space and line terminators of the language: tab, line feed, vertical tab, form feed,
  carriage return, space and the no-break space 0xA0.
\<close>

type_synonym headers = "(string \<times> string) list"

definition latin1_capitals :: string where
  "latin1_capitals =
     [CHR 0xC0, CHR 0xC1, CHR 0xC2, CHR 0xC3, CHR 0xC4, CHR 0xC5, CHR 0xC6, CHR 0xC7,
      CHR 0xC8, CHR 0xC9, CHR 0xCA, CHR 0xCB, CHR 0xCC, CHR 0xCD, CHR 0xCE, CHR 0xCF,
      CHR 0xD0, CHR 0xD1, CHR 0xD2, CHR 0xD3, CHR 0xD4, CHR 0xD5, CHR 0xD6, CHR 0xD8,
      CHR 0xD9, CHR 0xDA, CHR 0xDB, CHR 0xDC, CHR 0xDD, CHR 0xDE]"

definition latin1_smalls :: string where
  "latin1_smalls =
     [CHR 0xE0, CHR 0xE1, CHR 0xE2, CHR 0xE3, CHR 0xE4, CHR 0xE5, CHR 0xE6, CHR 0xE7,
      CHR 0xE8, CHR 0xE9, CHR 0xEA, CHR 0xEB, CHR 0xEC, CHR 0xED, CHR 0xEE, CHR 0xEF,
      CHR 0xF0, CHR 0xF1, CHR 0xF2, CHR 0xF3, CHR 0xF4, CHR 0xF5, CHR 0xF6, CHR 0xF8,
      CHR 0xF9, CHR 0xFA, CHR 0xFB, CHR 0xFC, CHR 0xFD, CHR 0xFE]"

definition lower_char :: "char \<Rightarrow> char" where
  "lower_char c =
     (case map_of (zip (''ABCDEFGHIJKLMNOPQRSTUVWXYZ'' @ latin1_capitals)
                       (''abcdefghijklmnopqrstuvwxyz'' @ latin1_smalls)) c of
        Some d \<Rightarrow> d | None \<Rightarrow> c)"

definition toLowerCase :: "string \<Rightarrow> string" where
  "toLowerCase s = map lower_char s"

definition normalizeHeaders :: "headers \<Rightarrow> (string \<rightharpoonup> string)" where
  "normalizeHeaders hs =
     foldl (\<lambda>normalizedHeaders (key, v). normalizedHeaders(toLowerCase key \<mapsto> v)) Map.empty hs"

definition startsWith :: "string \<Rightarrow> string \<Rightarrow> bool" where
  "startsWith s p = (take (length p) s = p)"

fun replace_first :: "string \<Rightarrow> string \<Rightarrow> string \<Rightarrow> string" where
  "replace_first pat rep [] = (if pat = [] then rep else [])"
| "replace_first pat rep (c # cs) =
     (if startsWith (c # cs) pat then rep @ drop (length pat) (c # cs)
      else c # replace_first pat rep cs)"


definition is_space :: "char \<Rightarrow> bool" where
  "is_space c =
     (c \<in> set [CHR 0x09, CHR 0x0A, CHR 0x0B, CHR 0x0C, CHR 0x0D, CHR 0x20, CHR 0xA0])"

definition trim :: "string \<Rightarrow> string" where
  "trim s = rev (dropWhile is_space (rev (dropWhile is_space s)))"

text \<open>\<open>h || ''\<close> on a header that may be undefined.\<close>

definition or_empty :: "string option \<Rightarrow> string" where
  "or_empty h = (case h of Some v \<Rightarrow> v | None \<Rightarrow> [])"

definition detectAuthMode :: "headers \<Rightarrow> string" where
  "detectAuthMode hs =
     (let normalizedHeaders = normalizeHeaders hs in
      if startsWith (or_empty (normalizedHeaders ''authorization'')) ''Bearer '' then ''bearer''
      else if or_empty (normalizedHeaders ''x-agent-secret-token'') \<noteq> [] then ''custom''
      else ''none'')"

text \<open>The fall-back of \<open>validateA2ARequest\<close>: the custom header pair.\<close>

definition validate_custom ::
  "world \<Rightarrow> (string \<rightharpoonup> string) \<Rightarrow> client \<Rightarrow> (error + bool) \<times> client" where
  "validate_custom w normalizedHeaders s =
     (let customToken = or_empty (normalizedHeaders ''x-agent-secret-token'');
          agentId = or_empty (normalizedHeaders ''x-agent-user-id'')
      in if customToken \<noteq> [] \<and> agentId \<noteq> []
         then validateToken w (JStr customToken) (JStr agentId) s
         else (Inr False, s))"

definition validateA2ARequest :: "world \<Rightarrow> headers \<Rightarrow> client \<Rightarrow> (error + bool) \<times> client" where
  "validateA2ARequest w hs s =
     (let normalizedHeaders = normalizeHeaders hs;
          authHeader = or_empty (normalizedHeaders ''authorization'')
      in if startsWith authHeader ''Bearer '' then
           (let token = trim (replace_first ''Bearer '' [] authHeader);
                agentId = or_empty (normalizedHeaders ''x-agent-user-id'')
            in if token \<noteq> [] \<and> agentId \<noteq> []
               then validateToken w (JStr token) (JStr agentId) s
               else validate_custom w normalizedHeaders s)
         else validate_custom w normalizedHeaders s)"

section \<open>Configuration (validation.js, and the constructor of client.js)\<close>

text \<open>
  The options object: each tunable is a number, a boolean or a string as its JSDoc types
  it, or \<open>None\<close> when it is \<open>undefined\<close>.
\<close>

record options =
  opt_timeout :: "real option"
  opt_maxRetries :: "real option"
  opt_retryDelay :: "real option"
  opt_cacheTokens :: "bool option"
  opt_logLevel :: "string option"

record process_env =
  TRAYLINX_CLIENT_ID :: "string option"
  TRAYLINX_CLIENT_SECRET :: "string option"
  TRAYLINX_API_BASE_URL :: "string option"
  TRAYLINX_AGENT_USER_ID :: "string option"

record config_params =
  p_clientId :: "string option"
  p_clientSecret :: "string option"
  p_apiBaseUrl :: "string option"
  p_agentUserId :: "string option"
  p_timeout :: real
  p_maxRetries :: real
  p_retryDelay :: real
  p_cacheTokens :: bool
  p_logLevel :: string

text \<open>\<open>a || b\<close> on an optional string, on an optional number, on an optional string with a default.\<close>

definition or_env :: "string option \<Rightarrow> string option \<Rightarrow> string option" where
  "or_env a b = (case a of Some v \<Rightarrow> if v \<noteq> [] then Some v else b | None \<Rightarrow> b)"

definition or_number :: "real option \<Rightarrow> real \<Rightarrow> real" where
  "or_number a d = (case a of Some x \<Rightarrow> if x \<noteq> 0 then x else d | None \<Rightarrow> d)"

definition or_string :: "string option \<Rightarrow> string \<Rightarrow> string" where
  "or_string a d = (case a of Some v \<Rightarrow> if v \<noteq> [] then v else d | None \<Rightarrow> d)"

definition configParams ::
  "process_env \<Rightarrow> string option \<Rightarrow> string option \<Rightarrow> string option \<Rightarrow> string option
     \<Rightarrow> options \<Rightarrow> config_params" where
  "configParams env cid csecret url uid opts =
     \<lparr>p_clientId = or_env cid (TRAYLINX_CLIENT_ID env),
      p_clientSecret = or_env csecret (TRAYLINX_CLIENT_SECRET env),
      p_apiBaseUrl = or_env url (TRAYLINX_API_BASE_URL env),
      p_agentUserId = or_env uid (TRAYLINX_AGENT_USER_ID env),
      p_timeout = or_number (opt_timeout opts) 30000,
      p_maxRetries = or_number (opt_maxRetries opts) 3,
      p_retryDelay = or_number (opt_retryDelay opts) 1000,
      p_cacheTokens = (case opt_cacheTokens opts of Some b \<Rightarrow> b | None \<Rightarrow> True),
      p_logLevel = or_string (opt_logLevel opts) ''INFO''\<rparr>"

text \<open>
  The schema's rules for the tunables, on a number that is present: \<open>integer()\<close>,
  \<open>min\<close> and \<open>max\<close>.
\<close>

definition is_integer :: "real \<Rightarrow> bool" where
  "is_integer x = (of_int \<lfloor>x\<rfloor> = x)"

definition timeout_rule :: "real \<Rightarrow> bool" where
  "timeout_rule x = (is_integer x \<and> 1000 \<le> x \<and> x \<le> 300000)"

definition maxRetries_rule :: "real \<Rightarrow> bool" where
  "maxRetries_rule x = (is_integer x \<and> 0 \<le> x \<and> x \<le> 10)"

definition retryDelay_rule :: "real \<Rightarrow> bool" where
  "retryDelay_rule x = (100 \<le> x \<and> x \<le> 60000)"

definition upper_char :: "char \<Rightarrow> char" where
  "upper_char c =
     (case map_of (zip ''abcdefghijklmnopqrstuvwxyz'' ''ABCDEFGHIJKLMNOPQRSTUVWXYZ'') c of
        Some d \<Rightarrow> d | None \<Rightarrow> c)"

definition toUpperCase :: "string \<Rightarrow> string" where
  "toUpperCase s = map upper_char s"

definition validLevels :: "string list" where
  "validLevels = [''DEBUG'', ''INFO'', ''WARN'', ''WARNING'', ''ERROR'', ''CRITICAL'']"

text \<open>
  What the validation library contributes and the schema only configures: how it judges
  and normalises the four identity strings (\<open>None\<close> when one of them breaks a rule), and
  the text it composes for the rules that failed.
\<close>

record joi =
  identity_rules ::
    "string option \<times> string option \<times> string option \<times> string option
       \<Rightarrow> (string \<times> string \<times> string \<times> string) option"
  detail_messages :: "config_params \<Rightarrow> string list"

text \<open>\<open>validateConfig\<close> on the object the constructor builds; \<open>Inl\<close> is the message of the Error.\<close>

definition validateConfig :: "joi \<Rightarrow> config_params \<Rightarrow> string + config" where
  "validateConfig j p =
     (case identity_rules j (p_clientId p, p_clientSecret p, p_apiBaseUrl p, p_agentUserId p) of
        Some (cid, csecret, url, uid) \<Rightarrow>
          if timeout_rule (p_timeout p) \<and> maxRetries_rule (p_maxRetries p) \<and>
             retryDelay_rule (p_retryDelay p) \<and> toUpperCase (p_logLevel p) \<in> set validLevels
          then Inr \<lparr>cfg_clientId = cid, cfg_clientSecret = csecret, cfg_apiBaseUrl = url,
                    cfg_agentUserId = uid, cfg_timeout = p_timeout p,
                    cfg_maxRetries = p_maxRetries p, cfg_retryDelay = p_retryDelay p,
                    cfg_cacheTokens = p_cacheTokens p,
                    cfg_logLevel = toUpperCase (p_logLevel p)\<rparr>
          else Inl (''Configuration validation failed: '' @ join ''; '' (detail_messages j p))
      | None \<Rightarrow> Inl (''Configuration validation failed: '' @ join ''; '' (detail_messages j p)))"

definition new_client :: "config \<Rightarrow> client" where
  "new_client c =
     \<lparr>config = c, clientId = cfg_clientId c, clientSecret = cfg_clientSecret c,
      apiBaseUrl = cfg_apiBaseUrl c, agentUserId = cfg_agentUserId c,
      accessToken = JNull, agentSecretToken = JNull, tokenExpiration = JNull,
      ticks = 0, sent = []\<rparr>"

definition constructor ::
  "joi \<Rightarrow> process_env \<Rightarrow> string option \<Rightarrow> string option \<Rightarrow> string option \<Rightarrow> string option
     \<Rightarrow> options \<Rightarrow> error + client" where
  "constructor j env cid csecret url uid opts =
     (case validateConfig j (configParams env cid csecret url uid opts) of
        Inl m \<Rightarrow> Inl (mk_error ValidationError m ''CONFIG_VALIDATION_ERROR'' (Some 400))
      | Inr c \<Rightarrow> Inr (new_client c))"

section \<open>Calls in flight\<close>

text \<open>
  JavaScript runs one task at a time and a task runs until its next \<open>await\<close>. An
  accessor has one: \<open>await this._fetchTokens()\<close>, reached after \<open>_fetchTokens\<close> has
  handed its POST to the transport. So a call is two steps. \<open>call\<close> runs the accessor up
  to that point (or to its end, when the cache is good); \<open>settle\<close> runs the rest of a
  waiting call when its POST comes back. \<open>Awaiting a n\<close> is a call of accessor \<open>a\<close>
  waiting for the \<open>n\<close>-th request sent.
\<close>

datatype task = Awaiting accessor nat | Settled "error + jsval"

definition call :: "world \<Rightarrow> accessor \<Rightarrow> client \<times> task list \<Rightarrow> client \<times> task list" where
  "call w a l =
     (let (s, tasks) = l; (need, s1) = needs_fetch w a s in
      if need then
        (send (token_request s1) s1, tasks @ [Awaiting a (length (sent s1))])
      else (s1, tasks @ [Settled (token_or_throw a s1)]))"

definition settle :: "world \<Rightarrow> nat \<Rightarrow> client \<times> task list \<Rightarrow> client \<times> task list" where
  "settle w i l =
     (let (s, tasks) = l in
      if i < length tasks then
        (case tasks ! i of
           Awaiting a n \<Rightarrow>
             (case fetchTokens_settle w (server w n (sent s ! n)) s of
                (Inl e, s1) \<Rightarrow> (s1, tasks[i := Settled (Inl e)])
              | (Inr u, s1) \<Rightarrow> (s1, tasks[i := Settled (token_or_throw a s1)]))
         | Settled r \<Rightarrow> l)
      else l)"

section \<open>The deprecated TokenManager (tokenManager.js)\<close>

text \<open>
  The predecessor of the client keeps a fourth field beside the credential pair:
  \<open>_fetchPromise\<close>, the promise of the refresh in flight. \<open>Pending n\<close> is the promise
  of a \<open>_fetchTokens\<close> that waits for the \<open>n\<close>-th request sent. \<open>Failed\<close> is the
  promise of a \<open>_fetchTokens\<close> whose \<open>_validateConfig\<close> threw: that run is over, with its
  \<open>finally\<close>, before \<open>getAccessToken\<close> stores its promise, so the rejected promise stays in
  the field. The identity strings come from the process environment and may be undefined.
\<close>

datatype promise = Pending nat | Failed

record token_manager =
  tm_clientId :: "string option"
  tm_clientSecret :: "string option"
  tm_apiBaseUrl :: "string option"
  tm_accessToken :: jsval
  tm_agentSecretToken :: jsval
  tm_tokenExpiration :: jsval
  fetchPromise :: "promise option"
  tm_ticks :: nat
  tm_sent :: "http_request list"

text \<open>The condition under which \<open>_validateConfig\<close> throws.\<close>

definition tm_config_missing :: "token_manager \<Rightarrow> bool" where
  "tm_config_missing m =
     (or_empty (tm_clientId m) = [] \<or> or_empty (tm_clientSecret m) = [] \<or>
      or_empty (tm_apiBaseUrl m) = [] \<or> trim (or_empty (tm_clientId m)) = [] \<or>
      trim (or_empty (tm_clientSecret m)) = [] \<or> trim (or_empty (tm_apiBaseUrl m)) = [])"

definition tm_token_request :: "token_manager \<Rightarrow> http_request" where
  "tm_token_request m =
     \<lparr>req_url = or_empty (tm_apiBaseUrl m) @ ''/oauth/token'',
      req_body = Form [(''grant_type'', JStr ''client_credentials''),
                       (''client_id'', JStr (or_empty (tm_clientId m))),
                       (''client_secret'', JStr (or_empty (tm_clientSecret m))),
                       (''scope'', JStr ''a2a'')],
      req_headers = [(''Content-Type'', JStr ''application/x-www-form-urlencoded'')]\<rparr>"

definition could_not_fetch :: string where
  "could_not_fetch = ''Could not fetch tokens from Traylinx Sentinel''"

text \<open>
  \<open>_fetchTokens\<close> of the manager from the settled POST on: the destructuring of the body
  (which throws on \<open>null\<close>), the check of the three fields, the assignments; the \<open>catch\<close>
  that replaces every error by one message; the \<open>finally\<close> that clears the field.
\<close>

definition tm_fetchTokens_settle ::
  "world \<Rightarrow> http_outcome \<Rightarrow> token_manager \<Rightarrow> (string + unit) \<times> token_manager" where
  "tm_fetchTokens_settle w out m =
     (case out of
        Rejected e \<Rightarrow> (Inl could_not_fetch, m\<lparr>fetchPromise := None\<rparr>)
      | Resolved response \<Rightarrow>
          if nullish (data response) then (Inl could_not_fetch, m\<lparr>fetchPromise := None\<rparr>)
          else
            (let access_token = member (data response) ''access_token'';
                 agent_secret_token = member (data response) ''agent_secret_token'';
                 expires_in = member (data response) ''expires_in''
             in if \<not> truthy access_token \<or> \<not> truthy agent_secret_token \<or>
                   expires_in = JUndefined
                then (Inl could_not_fetch, m\<lparr>fetchPromise := None\<rparr>)
                else (Inr (),
                      m\<lparr>tm_accessToken := access_token,
                        tm_agentSecretToken := agent_secret_token,
                        tm_tokenExpiration :=
                          JNum (num_add (Num (clock w (tm_ticks m)))
                                 (num_mul (to_number (rt w) expires_in) (Num 1000))),
                        tm_ticks := Suc (tm_ticks m),
                        fetchPromise := None\<rparr>)))"

definition tm_token_of :: "accessor \<Rightarrow> token_manager \<Rightarrow> jsval" where
  "tm_token_of a m = (case a of GetAccessToken \<Rightarrow> tm_accessToken m
                              | GetAgentSecretToken \<Rightarrow> tm_agentSecretToken m)"

definition tm_needs_fetch :: "world \<Rightarrow> accessor \<Rightarrow> token_manager \<Rightarrow> bool \<times> token_manager" where
  "tm_needs_fetch w a m =
     (if \<not> truthy (tm_token_of a m) then (True, m)
      else (num_ge (Num (clock w (tm_ticks m))) (to_number (rt w) (tm_tokenExpiration m)),
            m\<lparr>tm_ticks := Suc (tm_ticks m)\<rparr>))"

datatype tm_task = TM_Awaiting accessor nat | TM_Settled "string + jsval"

text \<open>
  An accessor of the manager up to its \<open>await this._fetchPromise\<close>: a refresh is started
  only when the field is empty; otherwise the call waits for the promise that is there.
\<close>

definition tm_call ::
  "world \<Rightarrow> accessor \<Rightarrow> token_manager \<times> tm_task list \<Rightarrow> token_manager \<times> tm_task list" where
  "tm_call w a l =
     (let (m, tasks) = l; (need, m1) = tm_needs_fetch w a m in
      if need then
        (case fetchPromise m1 of
           None \<Rightarrow>
             if tm_config_missing m1 then
               (m1\<lparr>fetchPromise := Some Failed\<rparr>, tasks @ [TM_Settled (Inl could_not_fetch)])
             else
               (m1\<lparr>tm_sent := tm_sent m1 @ [tm_token_request m1],
                   fetchPromise := Some (Pending (length (tm_sent m1)))\<rparr>,
                tasks @ [TM_Awaiting a (length (tm_sent m1))])
         | Some (Pending n) \<Rightarrow> (m1, tasks @ [TM_Awaiting a n])
         | Some Failed \<Rightarrow> (m1, tasks @ [TM_Settled (Inl could_not_fetch)]))
      else (m1, tasks @ [TM_Settled (Inr (tm_token_of a m1))]))"

text \<open>
  The POST of the refresh in flight settles: \<open>_fetchTokens\<close> finishes, and every call
  that awaits its promise resumes with the same outcome and returns its token.
\<close>

definition tm_resume :: "nat \<Rightarrow> string + unit \<Rightarrow> token_manager \<Rightarrow> tm_task \<Rightarrow> tm_task" where
  "tm_resume n r m t =
     (case t of
        TM_Awaiting a k \<Rightarrow>
          if k = n then
            TM_Settled (case r of Inl e \<Rightarrow> Inl e | Inr u \<Rightarrow> Inr (tm_token_of a m))
          else t
      | TM_Settled v \<Rightarrow> t)"

definition tm_settle ::
  "world \<Rightarrow> nat \<Rightarrow> token_manager \<times> tm_task list \<Rightarrow> token_manager \<times> tm_task list" where
  "tm_settle w n l =
     (let (m, tasks) = l in
      if fetchPromise m = Some (Pending n) \<and> n < length (tm_sent m) then
        (let (r, m1) = tm_fetchTokens_settle w (server w n (tm_sent m ! n)) m
         in (m1, map (tm_resume n r m1) tasks))
      else l)"

section \<open>Sample inputs\<close>

text \<open>
  Concrete values on which the theorems below are evaluated: the client of the test suite,
  a runtime, a clock that advances one second a read, and the token response of the tests.
\<close>

definition sample_text :: "jsval \<Rightarrow> string" where
  "sample_text v =
     (case v of
        JStr s \<Rightarrow> s
      | JNull \<Rightarrow> ''null''
      | JUndefined \<Rightarrow> ''undefined''
      | JBool b \<Rightarrow> (if b then ''true'' else ''false'')
      | _ \<Rightarrow> ''[object Object]'')"

definition sample_runtime :: js_runtime where
  "sample_runtime =
     \<lparr>ToString = (\<lambda>v. ''[object Object]''), ToNumber = (\<lambda>v. NaN),
      TypeErrorMessage = ''Cannot read properties of null'',
      InOperatorMessage =
        (\<lambda>k v. ''Cannot use '' @ [CHR 0x27] @ ''in'' @ [CHR 0x27] @
               '' operator to search for '' @ [CHR 0x27] @ k @ [CHR 0x27] @ '' in '' @
               sample_text v)\<rparr>"

definition sample_config :: config where
  "sample_config =
     \<lparr>cfg_clientId = ''test-client'', cfg_clientSecret = ''super-secret-key-12345'',
      cfg_apiBaseUrl = ''https://api.example.com'',
      cfg_agentUserId = ''12345678-1234-1234-1234-123456789abc'',
      cfg_timeout = 30000, cfg_maxRetries = 3, cfg_retryDelay = 1000,
      cfg_cacheTokens = True, cfg_logLevel = ''INFO''\<rparr>"

definition sample_client :: client where
  "sample_client = new_client sample_config"

definition sample_world :: "(nat \<Rightarrow> http_request \<Rightarrow> http_outcome) \<Rightarrow> world" where
  "sample_world srv =
     \<lparr>rt = sample_runtime, clock = (\<lambda>k. 1000 * real k), server = srv,
      uuid = (\<lambda>k. ''00000000-0000-4000-8000-000000000000'')\<rparr>"

definition ok_response :: "jsval \<Rightarrow> http_response" where
  "ok_response body = \<lparr>status = 200, statusText = ''OK'', data = body\<rparr>"

definition token_body :: "string \<Rightarrow> string \<Rightarrow> real \<Rightarrow> jsval" where
  "token_body access secret expires =
     JObj [(''access_token'', JStr access), (''agent_secret_token'', JStr secret),
           (''expires_in'', JNum (Num expires))]"

text \<open>An authority that issues a fresh pair of tokens on every request, numbered by the request.\<close>

definition issuing_server :: "nat \<Rightarrow> http_request \<Rightarrow> http_outcome" where
  "issuing_server n r =
     Resolved (ok_response (token_body (''access_'' @ string_of_nat n)
                                       (''secret_'' @ string_of_nat n) 3600))"

text \<open>
  An authority that issues tokens at the token endpoint and settles every other request
  with the given outcome.
\<close>

definition authority :: "http_outcome \<Rightarrow> nat \<Rightarrow> http_request \<Rightarrow> http_outcome" where
  "authority out n r =
     (if req_url r = ''https://api.example.com/oauth/token'' then issuing_server n r else out)"

definition rejection :: "int \<Rightarrow> http_outcome" where
  "rejection st =
     Rejected \<lparr>ax_code = Some ''ERR_BAD_REQUEST'',
               ax_response = Some \<lparr>status = st, statusText = [], data = JUndefined\<rparr>,
               ax_request = True, ax_message = ''Request failed''\<rparr>"

definition sample_joi :: joi where
  "sample_joi =
     \<lparr>identity_rules =
        (\<lambda>(cid, csecret, url, uid).
           case (cid, csecret, url, uid) of
             (Some a, Some b, Some c, Some d) \<Rightarrow> Some (a, b, c, d)
           | _ \<Rightarrow> None),
      detail_messages = (\<lambda>p. [])\<rparr>"

definition no_env :: process_env where
  "no_env =
     \<lparr>TRAYLINX_CLIENT_ID = None, TRAYLINX_CLIENT_SECRET = None,
      TRAYLINX_API_BASE_URL = None, TRAYLINX_AGENT_USER_ID = None\<rparr>"

definition zero_options :: options where
  "zero_options =
     \<lparr>opt_timeout = Some 0, opt_maxRetries = Some 0, opt_retryDelay = Some 0,
      opt_cacheTokens = None, opt_logLevel = None\<rparr>"

text \<open>The sample client after one refresh against \<open>issuing_server\<close>, read at clock 0.\<close>

definition refreshed_client :: client where
  "refreshed_client =
     sample_client
       \<lparr>accessToken := JStr ''access_0'', agentSecretToken := JStr ''secret_0'',
        tokenExpiration := JNum (Num 3600000), ticks := 1,
        sent := [token_request sample_client]\<rparr>"

section \<open>Retry policy and backoff\<close>

text \<open>
  C7. The retry policy table of \<open>_shouldRetry\<close>, each row under the rows before it: with
  retries enabled, an error whose code is one of ECONNABORTED, ENOTFOUND, ECONNREFUSED,
  ECONNRESET, ETIMEDOUT is retried; so is an error carrying a response with status 429, 500,
  502, 503 or 504; an error carrying a response with status 400, 401, 403 or 404 (and no
  connection-fault code) is not; an error with neither a response nor a recognised code is
  not; and with \<open>maxRetries = 0\<close> nothing is retried, whatever the error.
\<close>

theorem shouldRetry_policy_table:
  "(maxRetries \<noteq> 0 \<and> ax_code e = Some c \<and>
      c \<in> {''ECONNABORTED'', ''ENOTFOUND'', ''ECONNREFUSED'', ''ECONNRESET'', ''ETIMEDOUT''}
      \<longrightarrow> shouldRetry maxRetries e)
   \<and> (maxRetries \<noteq> 0 \<and> ax_response e = Some r \<and> status r \<in> {429, 500, 502, 503, 504}
      \<longrightarrow> shouldRetry maxRetries e)
   \<and> (ax_response e = Some r \<and> status r \<in> {400, 401, 403, 404} \<and>
      \<not> code_included e network_codes \<longrightarrow> \<not> shouldRetry maxRetries e)
   \<and> (ax_response e = None \<and> \<not> code_included e network_codes
      \<longrightarrow> \<not> shouldRetry maxRetries e)
   \<and> \<not> shouldRetry 0 e"
  by (auto simp: shouldRetry_def code_truthy_def code_included_def network_codes_def
        retryableStatuses_def split: option.splits)

theorem shouldRetry_policy_table_witness:
  "shouldRetry 3 \<lparr>ax_code = Some ''ETIMEDOUT'', ax_response = None, ax_request = True,
                   ax_message = ''timeout''\<rparr>
   \<and> shouldRetry 3 \<lparr>ax_code = Some ''ERR_BAD_RESPONSE'',
         ax_response = Some \<lparr>status = 503, statusText = ''Service Unavailable'', data = JNull\<rparr>,
         ax_request = True, ax_message = ''Request failed with status code 503''\<rparr>
   \<and> \<not> shouldRetry 3 \<lparr>ax_code = Some ''ERR_BAD_REQUEST'',
         ax_response = Some \<lparr>status = 404, statusText = ''Not Found'', data = JNull\<rparr>,
         ax_request = True, ax_message = ''Request failed with status code 404''\<rparr>
   \<and> \<not> shouldRetry 3 \<lparr>ax_code = None, ax_response = None, ax_request = False,
                       ax_message = ''boom''\<rparr>
   \<and> \<not> shouldRetry 0 \<lparr>ax_code = Some ''ECONNABORTED'', ax_response = None, ax_request = True,
                       ax_message = ''timeout''\<rparr>"
  using
    shouldRetry_policy_table [of 3
      "\<lparr>ax_code = Some ''ETIMEDOUT'', ax_response = None, ax_request = True,
        ax_message = ''timeout''\<rparr>" "''ETIMEDOUT''"]
    shouldRetry_policy_table [of 3
      "\<lparr>ax_code = Some ''ERR_BAD_RESPONSE'',
        ax_response = Some \<lparr>status = 503, statusText = ''Service Unavailable'', data = JNull\<rparr>,
        ax_request = True, ax_message = ''Request failed with status code 503''\<rparr>" _
      "\<lparr>status = 503, statusText = ''Service Unavailable'', data = JNull\<rparr>"]
    shouldRetry_policy_table [of 3
      "\<lparr>ax_code = Some ''ERR_BAD_REQUEST'',
        ax_response = Some \<lparr>status = 404, statusText = ''Not Found'', data = JNull\<rparr>,
        ax_request = True, ax_message = ''Request failed with status code 404''\<rparr>" _
      "\<lparr>status = 404, statusText = ''Not Found'', data = JNull\<rparr>"]
    shouldRetry_policy_table [of 3
      "\<lparr>ax_code = None, ax_response = None, ax_request = False, ax_message = ''boom''\<rparr>"]
    shouldRetry_policy_table [of _
      "\<lparr>ax_code = Some ''ECONNABORTED'', ax_response = None, ax_request = True,
        ax_message = ''timeout''\<rparr>"]
  by (simp add: code_included_def network_codes_def)

text \<open>
  The delay is the capped product, for every base delay, random draw and retry count; the
  jitter factor of the law is a tenth of the draw.
\<close>

lemma calculateRetryDelay_formula:
  "calculateRetryDelay base r n = min (base * 2 powi (n - 1) * (1 + r * 0.1)) 30000"
  by (simp add: calculateRetryDelay_def Let_def algebra_simps)

text \<open>
  Once the cap applies the delay is below the exponential term: with the base delay 10000
  of the test suite's cap test, the tenth retry waits 30000 ms, not 5120000.
\<close>

theorem calculateRetryDelay_interval_counterexample:
  "\<not> (10000 * 2 ^ nat (10 - 1) \<le> calculateRetryDelay 10000 0 10)"
  by (simp add: calculateRetryDelay_def)

text \<open>
  C8, amended. For a retry count \<open>n \<ge> 1\<close>, a draw \<open>r\<close> of \<open>Math.random()\<close> in
  \<open>[0, 1)\<close> (so a jitter \<open>r / 10\<close> in \<open>[0, 0.1)\<close>) and a base delay that is not
  negative, the delay is \<open>min (base * 2^(n-1) * (1 + jitter)) 30000\<close>; it never exceeds
  30000; while the uncapped value is at most 30000 it lies between \<open>base * 2^(n-1)\<close> and
  \<open>base * 2^(n-1) * 1.1\<close>; and for a fixed jitter it does not decrease with \<open>n\<close>.
\<close>

theorem calculateRetryDelay_law:
  assumes "1 \<le> n" and "0 \<le> r" and "r < 1" and "0 \<le> base"
  shows "calculateRetryDelay base r n = min (base * 2 ^ nat (n - 1) * (1 + r * 0.1)) 30000
       \<and> calculateRetryDelay base r n \<le> 30000
       \<and> (base * 2 ^ nat (n - 1) * (1 + r * 0.1) \<le> 30000 \<longrightarrow>
            base * 2 ^ nat (n - 1) \<le> calculateRetryDelay base r n \<and>
            calculateRetryDelay base r n \<le> base * 2 ^ nat (n - 1) * 1.1)
       \<and> (\<forall>m \<ge> n. calculateRetryDelay base r n \<le> calculateRetryDelay base r m)"
proof (intro conjI impI allI)
  have p: "(2::real) powi (n - 1) = 2 ^ nat (n - 1)"
    using assms(1) by (simp add: power_int_def)
  show f: "calculateRetryDelay base r n = min (base * 2 ^ nat (n - 1) * (1 + r * 0.1)) 30000"
    using calculateRetryDelay_formula [of base r n] p by simp
  show "calculateRetryDelay base r n \<le> 30000"
    using f by simp
  have e0: "0 \<le> base * 2 ^ nat (n - 1)"
    using assms(4) by simp
  have lo: "base * 2 ^ nat (n - 1) * 1 \<le> base * 2 ^ nat (n - 1) * (1 + r * 0.1)"
    using e0 assms(2) by (intro mult_left_mono) auto
  have hi: "base * 2 ^ nat (n - 1) * (1 + r * 0.1) \<le> base * 2 ^ nat (n - 1) * 1.1"
    using e0 assms(3) by (intro mult_left_mono) auto
  { assume c: "base * 2 ^ nat (n - 1) * (1 + r * 0.1) \<le> 30000"
    then have eq: "calculateRetryDelay base r n = base * 2 ^ nat (n - 1) * (1 + r * 0.1)"
      using f by simp
    show "base * 2 ^ nat (n - 1) \<le> calculateRetryDelay base r n"
      using eq lo by simp
    show "calculateRetryDelay base r n \<le> base * 2 ^ nat (n - 1) * 1.1"
      using eq hi by simp }
  { fix m assume nm: "n \<le> m"
    have "(2::real) powi (n - 1) \<le> 2 powi (m - 1)"
      using nm by (intro power_int_increasing) auto
    then have "base * 2 powi (n - 1) \<le> base * 2 powi (m - 1)"
      using assms(4) by (intro mult_left_mono) auto
    moreover have "0 \<le> 1 + r * 0.1"
      using assms(2) by simp
    ultimately have
      "base * 2 powi (n - 1) * (1 + r * 0.1) \<le> base * 2 powi (m - 1) * (1 + r * 0.1)"
      by (intro mult_right_mono) auto
    then show "calculateRetryDelay base r n \<le> calculateRetryDelay base r m"
      unfolding calculateRetryDelay_formula by (simp add: min_le_iff_disj) }
qed

theorem calculateRetryDelay_law_witness:
  "calculateRetryDelay 1000 (1 / 2) 2 = 2100
   \<and> 2000 \<le> calculateRetryDelay 1000 (1 / 2) 2
   \<and> calculateRetryDelay 1000 (1 / 2) 2 \<le> 2200
   \<and> calculateRetryDelay 1000 (1 / 2) 2 \<le> calculateRetryDelay 1000 (1 / 2) 3"
proof -
  have h: "(1::int) \<le> 2" "(0::real) \<le> 1 / 2" "(1 / 2 :: real) < 1" "(0::real) \<le> 1000"
    by simp_all
  note law = calculateRetryDelay_law [OF h]
  from law have a: "calculateRetryDelay 1000 (1 / 2) 2 = 2100"
    by simp
  from law have
    "1000 * 2 ^ nat (2 - 1) * (1 + 1 / 2 * 0.1) \<le> (30000::real) \<longrightarrow>
       1000 * 2 ^ nat (2 - 1) \<le> calculateRetryDelay 1000 (1 / 2) 2 \<and>
       calculateRetryDelay 1000 (1 / 2) 2 \<le> 1000 * 2 ^ nat (2 - 1) * 1.1"
    by blast
  then have b: "2000 \<le> calculateRetryDelay 1000 (1 / 2) 2 \<and>
                calculateRetryDelay 1000 (1 / 2) 2 \<le> 2200"
    by simp
  from law have "\<forall>m \<ge> 2. calculateRetryDelay 1000 (1 / 2) 2 \<le> calculateRetryDelay 1000 (1 / 2) m"
    by blast
  then have c: "calculateRetryDelay 1000 (1 / 2) 2 \<le> calculateRetryDelay 1000 (1 / 2) 3"
    by (rule allE [of _ 3]) simp
  from a b c show ?thesis by blast
qed

section \<open>Evaluating the sample inputs\<close>

lemma string_of_nat_digit: "n < 10 \<Longrightarrow> string_of_nat n = [''0123456789'' ! n]"
  by (simp add: string_of_nat.simps)

lemma sample_fetch:
  "srv 0 (token_request sample_client) = issuing_server 0 (token_request sample_client) \<Longrightarrow>
   fetchTokens (sample_world srv) sample_client = (Inr (), refreshed_client)"
  by (simp add: fetchTokens_def post_def send_def sample_world_def issuing_server_def
      fetchTokens_settle_def ok_response_def token_body_def requiredFields_def date_now_def
      sample_client_def new_client_def string_of_nat_digit refreshed_client_def)

lemma sample_get_token:
  "srv 0 (token_request sample_client) = issuing_server 0 (token_request sample_client) \<Longrightarrow>
   get_token (sample_world srv) a sample_client
     = (Inr (token_of a refreshed_client), refreshed_client)"
proof -
  have "\<not> truthy (token_of a sample_client)"
    by (cases a) (simp_all add: token_of_def sample_client_def new_client_def)
  moreover have "truthy (token_of a refreshed_client)"
    by (cases a) (simp_all add: token_of_def refreshed_client_def)
  ultimately show ?thesis
    if "srv 0 (token_request sample_client) = issuing_server 0 (token_request sample_client)"
    using that by (simp add: get_token_def needs_fetch_def sample_fetch token_or_throw_def)
qed


lemma sample_tokens:
  "token_of GetAccessToken refreshed_client = JStr ''access_0''"
  "token_of GetAgentSecretToken refreshed_client = JStr ''secret_0''"
  "agentUserId refreshed_client = ''12345678-1234-1234-1234-123456789abc''"
  "apiBaseUrl refreshed_client = ''https://api.example.com''"
  "rt (sample_world srv) = sample_runtime"
  by (simp_all add: token_of_def refreshed_client_def sample_client_def new_client_def
      sample_config_def sample_world_def)

lemma authority_token:
  "authority out 0 (token_request sample_client) = issuing_server 0 (token_request sample_client)"
  by (simp add: authority_def token_request_def sample_client_def new_client_def sample_config_def)

lemma authority_other:
  "server (sample_world (authority out)) n (introspect_request r refreshed_client a t u) = out"
  by (simp add: sample_world_def authority_def introspect_request_def sample_tokens)

lemma sample_getAccessToken:
  "getAccessToken (sample_world (authority out)) sample_client
     = (Inr (JStr ''access_0''), refreshed_client)"
  by (simp add: getAccessToken_def sample_get_token authority_token sample_tokens)

section \<open>Token refresh and the header sets\<close>

lemma get_token_result:
  "get_token w a s = (Inr v, s') \<Longrightarrow> v = token_of a s' \<and> truthy v"
  by (auto simp: get_token_def token_or_throw_def Let_def split: prod.splits sum.splits if_splits)
















section \<open>Introspection\<close>

lemma validateToken_resolved:
  assumes "getAccessToken w s = (Inr access, s1)"
    and "server w (length (sent s1)) (introspect_request (rt w) s1 access token userId) = out"
  shows "validateToken w token userId s =
           (validateToken_settle (rt w) out,
            send (introspect_request (rt w) s1 access token userId) s1)"
  using assms by (simp add: validateToken_def post_def)

text \<open>
  A 200 response whose body is \<open>null\<close> does not resolve \<open>false\<close>: reading
  \<open>active\<close> off it throws, and \<open>validateToken\<close> raises an AuthenticationError.
\<close>

theorem validateToken_null_body_counterexample:
  "status (ok_response JNull) = 200
   \<and> fst (validateToken (sample_world (authority (Resolved (ok_response JNull))))
            (JStr ''caller-secret'') (JStr ''caller-id'') sample_client)
     = Inl \<lparr>err_class = AuthenticationError,
            err_message =
              ''Failed to parse token validation response: Cannot read properties of null'',
            err_code = ''INVALID_VALIDATION_RESPONSE'', err_status = Some 200\<rparr>"
  by (simp add: validateToken_def sample_getAccessToken post_def authority_other
      validateToken_settle_def ok_response_def nullish_def mk_error_def sample_tokens
      sample_runtime_def)

text \<open>
  C4, amended. On a 200 introspection response whose body is neither \<open>null\<close> nor
  \<open>undefined\<close>, \<open>validateToken\<close> resolves \<open>true\<close> iff the body's \<open>active\<close> is
  the boolean \<open>true\<close> (the string \<open>"true"\<close> and a missing field give \<open>false\<close>); on
  a \<open>null\<close> or \<open>undefined\<close> body it raises an AuthenticationError with code
  INVALID_VALIDATION_RESPONSE.
\<close>

theorem validateToken_strict_active:
  assumes "getAccessToken w s = (Inr access, s1)"
    and "server w (length (sent s1)) (introspect_request (rt w) s1 access token userId)
           = Resolved response"
    and "status response = 200"
  shows "(\<not> nullish (data response) \<longrightarrow>
            fst (validateToken w token userId s)
              = Inr (member (data response) ''active'' = JBool True))
       \<and> (nullish (data response) \<longrightarrow>
            (\<exists>e. fst (validateToken w token userId s) = Inl e \<and>
                 err_class e = AuthenticationError \<and>
                 err_code e = ''INVALID_VALIDATION_RESPONSE''))"
  unfolding validateToken_resolved [OF assms(1,2)]
  using assms(3) by (simp add: validateToken_settle_def mk_error_def)

theorem validateToken_strict_active_witness:
  "fst (validateToken (sample_world (authority (Resolved (ok_response (JObj [(''active'', JBool True)])))))
            (JStr ''caller-secret'') (JStr ''caller-id'') sample_client) = Inr True
   \<and> fst (validateToken (sample_world (authority (Resolved (ok_response (JObj [(''active'', JStr ''true'')])))))
            (JStr ''caller-secret'') (JStr ''caller-id'') sample_client) = Inr False
   \<and> fst (validateToken (sample_world (authority (Resolved (ok_response (JObj [])))))
            (JStr ''caller-secret'') (JStr ''caller-id'') sample_client) = Inr False
   \<and> (\<exists>e. fst (validateToken (sample_world (authority (Resolved (ok_response JNull))))
            (JStr ''caller-secret'') (JStr ''caller-id'') sample_client) = Inl e
          \<and> err_class e = AuthenticationError \<and> err_code e = ''INVALID_VALIDATION_RESPONSE'')"
proof -
  have st: "status (ok_response b) = 200" and da: "data (ok_response b) = b" for b
    by (simp_all add: ok_response_def)
  note w = validateToken_strict_active [OF sample_getAccessToken, 
      of "Resolved (ok_response b)" "JStr ''caller-secret''" "JStr ''caller-id''" "ok_response b" for b,
      unfolded sample_tokens, OF authority_other st, unfolded da]
  show ?thesis
    using w [of "JObj [(''active'', JBool True)]"] w [of "JObj [(''active'', JStr ''true'')]"]
      w [of "JObj []"] w [of JNull]
    by (simp add: nullish_def)
qed

text \<open>
  A 401 is not among the retried statuses, so the interceptor hands the first one back.
\<close>

lemma interceptor_passes_401:
  assumes "attempts k = Rejected e" and "ax_response e = Some r" and "status r = 401"
    and "\<not> code_included e network_codes"
  shows "interceptor maxRetries attempts k = Rejected e"
  using assms
  by (simp add: interceptor.simps [of maxRetries attempts k] shouldRetry_def retryableStatuses_def
      code_included_def split: option.splits)

text \<open>
  C5. When the introspection endpoint answers 401, \<open>validateToken\<close> raises an
  AuthenticationError with status 401 and does not resolve \<open>false\<close>: whether the transport
  resolves with that status or, as it does by default, rejects with an error carrying the 401
  response (such an error has none of the four connection-fault codes that are classified
  first).
\<close>

theorem introspection_401_raises:
  assumes "getAccessToken w s = (Inr access, s1)"
    and "server w (length (sent s1)) (introspect_request (rt w) s1 access token userId) = out"
    and "(\<exists>r. out = Resolved r \<and> status r = 401) \<or>
         (\<exists>e r. out = Rejected e \<and> ax_response e = Some r \<and> status r = 401 \<and>
                \<not> code_included e [''ECONNABORTED'', ''ENOTFOUND'', ''ECONNREFUSED'', ''ECONNRESET''])"
  shows "\<exists>err. fst (validateToken w token userId s) = Inl err \<and>
               err_class err = AuthenticationError \<and> err_status err = Some 401"
  unfolding validateToken_resolved [OF assms(1,2)]
  using assms(3)
  by (auto simp: validateToken_settle_def handleRequestError_def mk_error_def code_included_def
      split: option.splits)

theorem introspection_401_raises_witness:
  "\<exists>err. fst (validateToken (sample_world (authority (rejection 401)))
            (JStr ''caller-secret'') (JStr ''caller-id'') sample_client) = Inl err
        \<and> err_class err = AuthenticationError \<and> err_status err = Some 401"
proof -
  have "(\<exists>r. rejection 401 = Resolved r \<and> status r = 401) \<or>
         (\<exists>e r. rejection 401 = Rejected e \<and> ax_response e = Some r \<and> status r = 401 \<and>
                \<not> code_included e [''ECONNABORTED'', ''ENOTFOUND'', ''ECONNREFUSED'', ''ECONNRESET''])"
    by (simp add: rejection_def code_included_def)
  from introspection_401_raises [OF sample_getAccessToken _ this, unfolded sample_tokens, OF authority_other]
  show ?thesis .
qed

section \<open>JSON-RPC credentials\<close>

lemma rpcCall_sends:
  "rpcCall_request w method params rpcUrl inc s = (Inr request, s1) \<Longrightarrow>
   sent (snd (rpcCall w method params rpcUrl inc s)) = sent s1 @ [request]"
  by (simp add: rpcCall_def post_def send_def)

lemma sample_accessors:
  "getAccessToken (sample_world issuing_server) sample_client
     = (Inr (JStr ''access_0''), refreshed_client)"
  "getAgentSecretToken (sample_world issuing_server) sample_client
     = (Inr (JStr ''secret_0''), refreshed_client)"
  by (simp_all add: getAccessToken_def getAgentSecretToken_def sample_get_token sample_tokens)

lemma sample_rpc_flags:
  "rpc_include sample_client None None = False"
  "rpc_include sample_client (Some ''https://peer.example.com/rpc'') None = True"
  "rpc_include sample_client None (Some True) = True"
  "rpc_include sample_client (Some ''https://peer.example.com/rpc'') (Some False) = False"
  "rpc_target sample_client None = ''https://api.example.com/a2a/rpc''"
  "rpc_target sample_client (Some ''https://peer.example.com/rpc'') = ''https://peer.example.com/rpc''"
  by (simp_all add: rpc_include_def rpc_target_def own_rpc_endpoint_def sample_client_def
      new_client_def sample_config_def)

lemma sample_refreshed:
  "agentSecretToken refreshed_client = JStr ''secret_0''"
  "accessToken refreshed_client = JStr ''access_0''"
  "sent refreshed_client = [token_request sample_client]"
  "bearer sample_runtime (JStr ''access_0'') = JStr ''Bearer access_0''"
  by (simp_all add: refreshed_client_def bearer_def)

text \<open>
  C6. Every \<open>rpcCall\<close> whose accessor succeeds sends one request, to the target, and
  that request carries exactly one credential shape. With the flag off (the target is, as a
  string, the authority's own RPC endpoint, or the caller passed \<open>false\<close>) its headers are
  \<open>Content-Type\<close> and \<open>Authorization: Bearer\<close> with the access token, so no
  \<open>X-Agent-Secret-Token\<close>; with the flag on (any other target, or the caller passed
  \<open>true\<close>) they are \<open>Content-Type\<close>, \<open>X-Agent-Secret-Token\<close> and
  \<open>X-Agent-User-Id\<close>, so no \<open>Authorization\<close>. A flag the caller supplies is the flag
  used, whatever the target; without one the flag is on exactly when the target differs from
  \<open>apiBaseUrl + '/a2a/rpc'\<close>, which is also the target when no URL is given. When the
  accessor fails, its error is the outcome of the call.
\<close>

theorem rpc_credential_exclusivity:
  "(rpc_include s rpcUrl inc \<and> getAgentSecretToken w s = (Inr secret, s1) \<longrightarrow>
      (\<exists>request.
          rpcCall_request w method params rpcUrl inc s = (Inr request, s1) \<and>
          sent (snd (rpcCall w method params rpcUrl inc s)) = sent s1 @ [request] \<and>
          req_url request = rpc_target s rpcUrl \<and>
          req_headers request =
            [(''Content-Type'', JStr ''application/json''),
             (''X-Agent-Secret-Token'', agentSecretToken s1),
             (''X-Agent-User-Id'', JStr (agentUserId s1))] \<and>
          map_of (req_headers request) ''X-Agent-Secret-Token'' = Some (agentSecretToken s1) \<and>
          map_of (req_headers request) ''X-Agent-User-Id'' = Some (JStr (agentUserId s1)) \<and>
          ''Authorization'' \<notin> fst ` set (req_headers request)))
   \<and> (\<not> rpc_include s rpcUrl inc \<and> getAccessToken w s = (Inr access, s1) \<longrightarrow>
      (\<exists>request.
          rpcCall_request w method params rpcUrl inc s = (Inr request, s1) \<and>
          sent (snd (rpcCall w method params rpcUrl inc s)) = sent s1 @ [request] \<and>
          req_url request = rpc_target s rpcUrl \<and>
          req_headers request =
            [(''Content-Type'', JStr ''application/json''),
             (''Authorization'', bearer (rt w) (accessToken s1))] \<and>
          map_of (req_headers request) ''Authorization'' = Some (bearer (rt w) (accessToken s1)) \<and>
          ''X-Agent-Secret-Token'' \<notin> fst ` set (req_headers request) \<and>
          ''X-Agent-User-Id'' \<notin> fst ` set (req_headers request)))
   \<and> (rpc_include s rpcUrl inc \<and> getAgentSecretToken w s = (Inl e, s1) \<longrightarrow>
        rpcCall w method params rpcUrl inc s = (Inl e, s1))
   \<and> (\<not> rpc_include s rpcUrl inc \<and> getAccessToken w s = (Inl e, s1) \<longrightarrow>
        rpcCall w method params rpcUrl inc s = (Inl e, s1))
   \<and> rpc_include s rpcUrl (Some True) \<and> \<not> rpc_include s rpcUrl (Some False)
   \<and> (rpc_include s rpcUrl None \<longleftrightarrow> rpc_target s rpcUrl \<noteq> apiBaseUrl s @ ''/a2a/rpc'')
   \<and> rpc_target s None = apiBaseUrl s @ ''/a2a/rpc''
   \<and> rpc_target s (Some []) = apiBaseUrl s @ ''/a2a/rpc''
   \<and> (\<forall>u. u \<noteq> [] \<longrightarrow> rpc_target s (Some u) = u)"
proof (intro conjI impI allI)
  show "rpc_include s rpcUrl (Some True)" "\<not> rpc_include s rpcUrl (Some False)"
    by (simp_all add: rpc_include_def)
  show "rpc_include s rpcUrl None \<longleftrightarrow> rpc_target s rpcUrl \<noteq> apiBaseUrl s @ ''/a2a/rpc''"
    by (simp add: rpc_include_def own_rpc_endpoint_def)
  show "rpc_target s None = apiBaseUrl s @ ''/a2a/rpc''"
    "rpc_target s (Some []) = apiBaseUrl s @ ''/a2a/rpc''"
    by (simp_all add: rpc_target_def own_rpc_endpoint_def)
  show "rpc_target s (Some u) = u" if "u \<noteq> []" for u
    using that by (simp add: rpc_target_def)
next
  assume a: "rpc_include s rpcUrl inc \<and> getAgentSecretToken w s = (Inr secret, s1)"
  then have g: "get_token w GetAgentSecretToken s = (Inr secret, s1)"
    by (simp add: getAgentSecretToken_def)
  from get_token_result [OF g] have t: "secret = agentSecretToken s1"
    by (simp add: token_of_def)
  let ?request = "\<lparr>req_url = rpc_target s rpcUrl,
      req_body = Json (rpc_payload w s method params),
      req_headers = [(''Content-Type'', JStr ''application/json''),
                     (''X-Agent-Secret-Token'', agentSecretToken s1),
                     (''X-Agent-User-Id'', JStr (agentUserId s1))]\<rparr>"
  have r: "rpcCall_request w method params rpcUrl inc s = (Inr ?request, s1)"
    using a t by (simp add: rpcCall_request_def Let_def)
  have "sent (snd (rpcCall w method params rpcUrl inc s)) = sent s1 @ [?request]"
    using r by (rule rpcCall_sends)
  with r show "\<exists>request.
          rpcCall_request w method params rpcUrl inc s = (Inr request, s1) \<and>
          sent (snd (rpcCall w method params rpcUrl inc s)) = sent s1 @ [request] \<and>
          req_url request = rpc_target s rpcUrl \<and>
          req_headers request =
            [(''Content-Type'', JStr ''application/json''),
             (''X-Agent-Secret-Token'', agentSecretToken s1),
             (''X-Agent-User-Id'', JStr (agentUserId s1))] \<and>
          map_of (req_headers request) ''X-Agent-Secret-Token'' = Some (agentSecretToken s1) \<and>
          map_of (req_headers request) ''X-Agent-User-Id'' = Some (JStr (agentUserId s1)) \<and>
          ''Authorization'' \<notin> fst ` set (req_headers request)"
    by (intro exI [of _ ?request]) simp
next
  assume a: "\<not> rpc_include s rpcUrl inc \<and> getAccessToken w s = (Inr access, s1)"
  then have g: "get_token w GetAccessToken s = (Inr access, s1)"
    by (simp add: getAccessToken_def)
  from get_token_result [OF g] have t: "access = accessToken s1"
    by (simp add: token_of_def)
  let ?request = "\<lparr>req_url = rpc_target s rpcUrl,
      req_body = Json (rpc_payload w s method params),
      req_headers = [(''Content-Type'', JStr ''application/json''),
                     (''Authorization'', bearer (rt w) (accessToken s1))]\<rparr>"
  have r: "rpcCall_request w method params rpcUrl inc s = (Inr ?request, s1)"
    using a t by (simp add: rpcCall_request_def Let_def)
  have "sent (snd (rpcCall w method params rpcUrl inc s)) = sent s1 @ [?request]"
    using r by (rule rpcCall_sends)
  with r show "\<exists>request.
          rpcCall_request w method params rpcUrl inc s = (Inr request, s1) \<and>
          sent (snd (rpcCall w method params rpcUrl inc s)) = sent s1 @ [request] \<and>
          req_url request = rpc_target s rpcUrl \<and>
          req_headers request =
            [(''Content-Type'', JStr ''application/json''),
             (''Authorization'', bearer (rt w) (accessToken s1))] \<and>
          map_of (req_headers request) ''Authorization'' = Some (bearer (rt w) (accessToken s1)) \<and>
          ''X-Agent-Secret-Token'' \<notin> fst ` set (req_headers request) \<and>
          ''X-Agent-User-Id'' \<notin> fst ` set (req_headers request)"
    by (intro exI [of _ ?request]) simp
next
  assume "rpc_include s rpcUrl inc \<and> getAgentSecretToken w s = (Inl e, s1)"
  then show "rpcCall w method params rpcUrl inc s = (Inl e, s1)"
    by (simp add: rpcCall_def rpcCall_request_def Let_def)
next
  assume "\<not> rpc_include s rpcUrl inc \<and> getAccessToken w s = (Inl e, s1)"
  then show "rpcCall w method params rpcUrl inc s = (Inl e, s1)"
    by (simp add: rpcCall_def rpcCall_request_def Let_def)
qed

theorem rpc_credential_exclusivity_witness:
  "(\<exists>request.
      rpcCall_request (sample_world issuing_server) ''health_check'' (JObj []) None None
        sample_client = (Inr request, refreshed_client) \<and>
      sent (snd (rpcCall (sample_world issuing_server) ''health_check'' (JObj []) None None
                   sample_client)) = [token_request sample_client, request] \<and>
      req_url request = ''https://api.example.com/a2a/rpc'' \<and>
      req_headers request = [(''Content-Type'', JStr ''application/json''),
                             (''Authorization'', JStr ''Bearer access_0'')])
   \<and> (\<exists>request.
      rpcCall_request (sample_world issuing_server) ''health_check'' (JObj [])
        (Some ''https://peer.example.com/rpc'') None sample_client
        = (Inr request, refreshed_client) \<and>
      req_url request = ''https://peer.example.com/rpc'' \<and>
      req_headers request = [(''Content-Type'', JStr ''application/json''),
                             (''X-Agent-Secret-Token'', JStr ''secret_0''),
                             (''X-Agent-User-Id'', JStr ''12345678-1234-1234-1234-123456789abc'')])
   \<and> (\<exists>request.
      rpcCall_request (sample_world issuing_server) ''health_check'' (JObj []) None (Some True)
        sample_client = (Inr request, refreshed_client) \<and>
      req_url request = ''https://api.example.com/a2a/rpc'' \<and>
      req_headers request = [(''Content-Type'', JStr ''application/json''),
                             (''X-Agent-Secret-Token'', JStr ''secret_0''),
                             (''X-Agent-User-Id'', JStr ''12345678-1234-1234-1234-123456789abc'')])
   \<and> (\<exists>request.
      rpcCall_request (sample_world issuing_server) ''health_check'' (JObj [])
        (Some ''https://peer.example.com/rpc'') (Some False) sample_client
        = (Inr request, refreshed_client) \<and>
      req_url request = ''https://peer.example.com/rpc'' \<and>
      req_headers request = [(''Content-Type'', JStr ''application/json''),
                             (''Authorization'', JStr ''Bearer access_0'')])"
proof -
  note t = rpc_credential_exclusivity [of sample_client _ _ "sample_world issuing_server"
      "JStr ''secret_0''" refreshed_client "''health_check''" "JObj []" "JStr ''access_0''"]
  have 1: "\<exists>request.
      rpcCall_request (sample_world issuing_server) ''health_check'' (JObj []) None None
        sample_client = (Inr request, refreshed_client) \<and>
      sent (snd (rpcCall (sample_world issuing_server) ''health_check'' (JObj []) None None
                   sample_client)) = [token_request sample_client, request] \<and>
      req_url request = ''https://api.example.com/a2a/rpc'' \<and>
      req_headers request = [(''Content-Type'', JStr ''application/json''),
                             (''Authorization'', JStr ''Bearer access_0'')]"
    using t [of None None]
    by (simp add: sample_rpc_flags sample_accessors sample_tokens sample_refreshed) blast
  have 2: "\<exists>request.
      rpcCall_request (sample_world issuing_server) ''health_check'' (JObj [])
        (Some ''https://peer.example.com/rpc'') None sample_client
        = (Inr request, refreshed_client) \<and>
      req_url request = ''https://peer.example.com/rpc'' \<and>
      req_headers request = [(''Content-Type'', JStr ''application/json''),
                             (''X-Agent-Secret-Token'', JStr ''secret_0''),
                             (''X-Agent-User-Id'', JStr ''12345678-1234-1234-1234-123456789abc'')]"
    using t [of "Some ''https://peer.example.com/rpc''" None]
    by (simp add: sample_rpc_flags sample_accessors sample_tokens sample_refreshed) blast
  have 3: "\<exists>request.
      rpcCall_request (sample_world issuing_server) ''health_check'' (JObj []) None (Some True)
        sample_client = (Inr request, refreshed_client) \<and>
      req_url request = ''https://api.example.com/a2a/rpc'' \<and>
      req_headers request = [(''Content-Type'', JStr ''application/json''),
                             (''X-Agent-Secret-Token'', JStr ''secret_0''),
                             (''X-Agent-User-Id'', JStr ''12345678-1234-1234-1234-123456789abc'')]"
    using t [of None "Some True"]
    by (simp add: sample_rpc_flags sample_accessors sample_tokens sample_refreshed) blast
  have 4: "\<exists>request.
      rpcCall_request (sample_world issuing_server) ''health_check'' (JObj [])
        (Some ''https://peer.example.com/rpc'') (Some False) sample_client
        = (Inr request, refreshed_client) \<and>
      req_url request = ''https://peer.example.com/rpc'' \<and>
      req_headers request = [(''Content-Type'', JStr ''application/json''),
                             (''Authorization'', JStr ''Bearer access_0'')]"
    using t [of "Some ''https://peer.example.com/rpc''" "Some False"]
    by (simp add: sample_rpc_flags sample_accessors sample_tokens sample_refreshed) blast
  from 1 2 3 4 show ?thesis by blast
qed

section \<open>Auth-mode detection\<close>

text \<open>
  \<open>detectAuthMode\<close> answers \<open>bearer\<close> for a Bearer \<open>Authorization\<close> header alone, with
  no agent-user-id header in the request.
\<close>

theorem detectAuthMode_bearer_counterexample:
  "detectAuthMode [(''Authorization'', ''Bearer test-token'')] = ''bearer''
   \<and> normalizeHeaders [(''Authorization'', ''Bearer test-token'')] ''x-agent-user-id'' = None"
  by (simp add: detectAuthMode_def normalizeHeaders_def toLowerCase_def lower_char_def
      latin1_capitals_def latin1_smalls_def startsWith_def or_empty_def)

text \<open>
  C3, amended. After the case-insensitive normalisation of the header names,
  \<open>detectAuthMode\<close> returns \<open>bearer\<close> exactly when the \<open>Authorization\<close> value begins
  with the literal \<open>Bearer \<close>, whether or not an agent-user-id header is present. The user
  id is required by \<open>validateA2ARequest\<close>: without one it resolves \<open>false\<close> and sends
  nothing; with one, a Bearer prefix and a token that is not empty once trimmed, it validates
  that token; with one and no such Bearer token, it validates the custom secret-token header
  if there is one, and resolves \<open>false\<close> and sends nothing if there is none.
\<close>

theorem detectAuthMode_bearer:
  "(detectAuthMode hs = ''bearer'' \<longleftrightarrow>
      startsWith (or_empty (normalizeHeaders hs ''authorization'')) ''Bearer '')
   \<and> (or_empty (normalizeHeaders hs ''x-agent-user-id'') = [] \<longrightarrow>
        validateA2ARequest w hs s = (Inr False, s))
   \<and> (startsWith (or_empty (normalizeHeaders hs ''authorization'')) ''Bearer '' \<and>
        trim (drop 7 (or_empty (normalizeHeaders hs ''authorization''))) \<noteq> [] \<and>
        or_empty (normalizeHeaders hs ''x-agent-user-id'') \<noteq> [] \<longrightarrow>
        validateA2ARequest w hs s =
          validateToken w (JStr (trim (drop 7 (or_empty (normalizeHeaders hs ''authorization'')))))
            (JStr (or_empty (normalizeHeaders hs ''x-agent-user-id''))) s)
   \<and> (\<not> (startsWith (or_empty (normalizeHeaders hs ''authorization'')) ''Bearer '' \<and>
           trim (drop 7 (or_empty (normalizeHeaders hs ''authorization''))) \<noteq> []) \<and>
        or_empty (normalizeHeaders hs ''x-agent-secret-token'') \<noteq> [] \<and>
        or_empty (normalizeHeaders hs ''x-agent-user-id'') \<noteq> [] \<longrightarrow>
        validateA2ARequest w hs s =
          validateToken w (JStr (or_empty (normalizeHeaders hs ''x-agent-secret-token'')))
            (JStr (or_empty (normalizeHeaders hs ''x-agent-user-id''))) s)
   \<and> (\<not> (startsWith (or_empty (normalizeHeaders hs ''authorization'')) ''Bearer '' \<and>
           trim (drop 7 (or_empty (normalizeHeaders hs ''authorization''))) \<noteq> []) \<and>
        or_empty (normalizeHeaders hs ''x-agent-secret-token'') = [] \<longrightarrow>
        validateA2ARequest w hs s = (Inr False, s))"
proof -
  have r: "replace_first p [] x = drop (length p) x" if "startsWith x p" for p x
    using that by (cases x) (auto simp: startsWith_def)
  have t: "trim (replace_first ''Bearer '' [] x) = trim (drop 7 x)" if "startsWith x ''Bearer ''" for x
    using r [OF that] by (simp add: eval_nat_numeral)
  show ?thesis
  proof (cases "startsWith (or_empty (normalizeHeaders hs ''authorization'')) ''Bearer ''")
    case True
    then show ?thesis
      by (simp add: detectAuthMode_def validateA2ARequest_def validate_custom_def Let_def t)
  next
    case False
    then show ?thesis
      by (simp add: detectAuthMode_def validateA2ARequest_def validate_custom_def Let_def)
  qed
qed

theorem detectAuthMode_bearer_witness:
  "detectAuthMode [(''AUTHORIZATION'', ''Bearer caller-secret'' @ [CHR 0xA0]),
                   (''x-agent-user-id'', ''caller-id'')]
     = ''bearer''
   \<and> validateA2ARequest (sample_world issuing_server)
        [(''AUTHORIZATION'', ''Bearer caller-secret'' @ [CHR 0xA0]),
         (''x-agent-user-id'', ''caller-id'')]
        sample_client
     = validateToken (sample_world issuing_server) (JStr ''caller-secret'') (JStr ''caller-id'')
         sample_client
   \<and> detectAuthMode [(''Authorization'', ''Bearer caller-secret'')] = ''bearer''
   \<and> validateA2ARequest (sample_world issuing_server)
        [(''Authorization'', ''Bearer caller-secret'')] sample_client
     = (Inr False, sample_client)
   \<and> detectAuthMode [(''Authorization'', ''Bearer '' @ [CHR 0xA0]),
                     (''X-Agent-Secret-Token'', ''legacy-secret''),
                     (''X-Agent-User-Id'', ''caller-id'')] = ''bearer''
   \<and> validateA2ARequest (sample_world issuing_server)
        [(''Authorization'', ''Bearer '' @ [CHR 0xA0]),
         (''X-Agent-Secret-Token'', ''legacy-secret''),
         (''X-Agent-User-Id'', ''caller-id'')] sample_client
     = validateToken (sample_world issuing_server) (JStr ''legacy-secret'') (JStr ''caller-id'')
         sample_client"
proof -
  let ?h1 = "[(''AUTHORIZATION'', ''Bearer caller-secret'' @ [CHR 0xA0]),
              (''x-agent-user-id'', ''caller-id'')]"
  let ?h2 = "[(''Authorization'', ''Bearer caller-secret'')]"
  let ?h3 = "[(''Authorization'', ''Bearer '' @ [CHR 0xA0]),
              (''X-Agent-Secret-Token'', ''legacy-secret''),
              (''X-Agent-User-Id'', ''caller-id'')]"
  have n1: "or_empty (normalizeHeaders ?h1 ''authorization'') = ''Bearer caller-secret'' @ [CHR 0xA0]"
    "or_empty (normalizeHeaders ?h1 ''x-agent-user-id'') = ''caller-id''"
    by (simp_all add: normalizeHeaders_def toLowerCase_def lower_char_def latin1_capitals_def
        latin1_smalls_def or_empty_def)
  have n2: "or_empty (normalizeHeaders ?h2 ''authorization'') = ''Bearer caller-secret''"
    "or_empty (normalizeHeaders ?h2 ''x-agent-user-id'') = []"
    by (simp_all add: normalizeHeaders_def toLowerCase_def lower_char_def latin1_capitals_def
        latin1_smalls_def or_empty_def)
  have n3: "or_empty (normalizeHeaders ?h3 ''authorization'') = ''Bearer '' @ [CHR 0xA0]"
    "or_empty (normalizeHeaders ?h3 ''x-agent-secret-token'') = ''legacy-secret''"
    "or_empty (normalizeHeaders ?h3 ''x-agent-user-id'') = ''caller-id''"
    by (simp_all add: normalizeHeaders_def toLowerCase_def lower_char_def latin1_capitals_def
        latin1_smalls_def or_empty_def)
  have t: "trim (drop 7 (''Bearer caller-secret'' @ [CHR 0xA0])) = ''caller-secret''"
    "trim (drop 7 (''Bearer '' @ [CHR 0xA0])) = []"
    by (simp_all add: trim_def is_space_def)
  have s: "startsWith (''Bearer caller-secret'' @ [CHR 0xA0]) ''Bearer ''"
    "startsWith ''Bearer caller-secret'' ''Bearer ''"
    "startsWith (''Bearer '' @ [CHR 0xA0]) ''Bearer ''"
    by (simp_all add: startsWith_def)
  show ?thesis
    using detectAuthMode_bearer [of ?h1 "sample_world issuing_server" sample_client]
      detectAuthMode_bearer [of ?h2 "sample_world issuing_server" sample_client]
      detectAuthMode_bearer [of ?h3 "sample_world issuing_server" sample_client]
    unfolding n1 n2 n3 t using s by simp
qed

section \<open>Constructor defaults\<close>

lemma sample_constructor:
  "constructor sample_joi no_env (Some ''test-client'') (Some ''super-secret-key-12345'')
     (Some ''https://api.example.com'') (Some ''12345678-1234-1234-1234-123456789abc'')
     zero_options = Inr sample_client"
  by (simp add: constructor_def validateConfig_def configParams_def sample_joi_def no_env_def
      zero_options_def or_env_def or_number_def or_string_def timeout_rule_def
      maxRetries_rule_def retryDelay_rule_def is_integer_def toUpperCase_def upper_char_def
      validLevels_def sample_client_def sample_config_def)

text \<open>
  C10. Whenever the constructor succeeds, an option \<open>maxRetries: 0\<close> is stored as 3,
  \<open>timeout: 0\<close> as 30000 and \<open>retryDelay: 0\<close> as 1000: the \<open>||\<close> replaces the
  falsy 0 before validation, although the schema's rule for \<open>maxRetries\<close> accepts 0 and
  \<open>_shouldRetry\<close> never retries when the stored value is 0.
\<close>

theorem constructor_zero_tunables:
  assumes "constructor j env cid csecret url uid opts = Inr c"
  shows "(opt_maxRetries opts = Some 0 \<longrightarrow> cfg_maxRetries (config c) = 3)
       \<and> (opt_timeout opts = Some 0 \<longrightarrow> cfg_timeout (config c) = 30000)
       \<and> (opt_retryDelay opts = Some 0 \<longrightarrow> cfg_retryDelay (config c) = 1000)
       \<and> maxRetries_rule 0
       \<and> (\<forall>e. \<not> shouldRetry 0 e)"
  using assms
  by (auto simp: constructor_def validateConfig_def configParams_def or_number_def new_client_def
      maxRetries_rule_def is_integer_def shouldRetry_def
      split: sum.splits option.splits if_splits prod.splits)

theorem constructor_zero_tunables_witness:
  "opt_maxRetries zero_options = Some 0 \<and> cfg_maxRetries (config sample_client) = 3
   \<and> opt_timeout zero_options = Some 0 \<and> cfg_timeout (config sample_client) = 30000
   \<and> opt_retryDelay zero_options = Some 0 \<and> cfg_retryDelay (config sample_client) = 1000"
  using constructor_zero_tunables [OF sample_constructor]
  by (simp add: zero_options_def)

section \<open>Concurrent calls\<close>

lemma call_without_token:
  "\<not> truthy (token_of a s) \<Longrightarrow>
   call w a (s, tasks) = (send (token_request s) s, tasks @ [Awaiting a (length (sent s))])"
  by (simp add: call_def needs_fetch_def)

lemma get_token_as_events:
  "get_token w a s = (r, s') \<longleftrightarrow> settle w 0 (call w a (s, [])) = (s', [Settled r])"
  by (auto simp: get_token_def call_def settle_def fetchTokens_def post_def send_def Let_def
      split: prod.splits sum.splits if_splits)

text \<open>
  The deprecated manager coalesces: from an empty cache, any number of calls issued before
  the refresh settles send one request and all wait for it; when it settles they all resume
  with its outcome, and the field is cleared.
\<close>

lemma tm_call_first:
  assumes "\<not> tm_config_missing m" and "fetchPromise m = None" and "\<not> truthy (tm_token_of a m)"
  shows "tm_call w a (m, tasks) =
           (m\<lparr>tm_sent := tm_sent m @ [tm_token_request m],
              fetchPromise := Some (Pending (length (tm_sent m)))\<rparr>,
            tasks @ [TM_Awaiting a (length (tm_sent m))])"
  using assms by (simp add: tm_call_def tm_needs_fetch_def)

lemma tm_call_pending:
  assumes "fetchPromise m = Some (Pending n)" and "\<not> truthy (tm_token_of a m)"
  shows "tm_call w a (m, tasks) = (m, tasks @ [TM_Awaiting a n])"
  using assms by (simp add: tm_call_def tm_needs_fetch_def)

lemma tm_calls_pending:
  assumes "fetchPromise m = Some (Pending n)"
    and "\<not> truthy (tm_accessToken m)" and "\<not> truthy (tm_agentSecretToken m)"
  shows "foldl (\<lambda>l a. tm_call w a l) (m, tasks) as = (m, tasks @ map (\<lambda>a. TM_Awaiting a n) as)"
proof (induction as arbitrary: tasks)
  case Nil
  show ?case by simp
next
  case (Cons a as)
  have "\<not> truthy (tm_token_of a m)"
    using assms(2,3) by (cases a) (simp_all add: tm_token_of_def)
  from tm_call_pending [OF assms(1) this] Cons show ?case
    by simp
qed

lemma tm_calls_coalesce:
  assumes "\<not> tm_config_missing m" and "fetchPromise m = None"
    and "\<not> truthy (tm_accessToken m)" and "\<not> truthy (tm_agentSecretToken m)"
  shows "foldl (\<lambda>l a. tm_call w a l) (m, []) (a # as) =
           (m\<lparr>tm_sent := tm_sent m @ [tm_token_request m],
              fetchPromise := Some (Pending (length (tm_sent m)))\<rparr>,
            map (\<lambda>a. TM_Awaiting a (length (tm_sent m))) (a # as))"
proof -
  let ?m = "m\<lparr>tm_sent := tm_sent m @ [tm_token_request m],
              fetchPromise := Some (Pending (length (tm_sent m)))\<rparr>"
  have "\<not> truthy (tm_token_of a m)"
    using assms(3,4) by (cases a) (simp_all add: tm_token_of_def)
  from tm_call_first [OF assms(1,2) this]
  have 1: "tm_call w a (m, []) = (?m, [TM_Awaiting a (length (tm_sent m))])"
    by simp
  have 2: "foldl (\<lambda>l a. tm_call w a l) (?m, [TM_Awaiting a (length (tm_sent m))]) as
         = (?m, [TM_Awaiting a (length (tm_sent m))] @ map (\<lambda>a. TM_Awaiting a (length (tm_sent m))) as)"
    using assms(3,4) by (intro tm_calls_pending) simp_all
  show ?thesis
    using 1 2 by simp
qed

lemma tm_settle_shared:
  assumes "fetchPromise m = Some (Pending n)" and "n < length (tm_sent m)"
    and "tm_fetchTokens_settle w (server w n (tm_sent m ! n)) m = (r, m')"
  shows "tm_settle w n (m, map (\<lambda>a. TM_Awaiting a n) as) =
           (m', map (\<lambda>a. TM_Settled (case r of Inl e \<Rightarrow> Inl e | Inr u \<Rightarrow> Inr (tm_token_of a m'))) as)
         \<and> fetchPromise m' = None \<and> tm_sent m' = tm_sent m"
proof -
  have "fetchPromise m' = None \<and> tm_sent m' = tm_sent m"
    using assms(3)
    by (auto simp: tm_fetchTokens_settle_def Let_def split: http_outcome.splits if_splits)
  then show ?thesis
    using assms by (simp add: tm_settle_def tm_resume_def comp_def)
qed

text \<open>
  C1, on \<open>TraylinxAuthClient\<close>, which has no such field. Two calls of
  \<open>getAccessToken\<close> issued back to back on a fresh client each hand their own POST to the
  token endpoint, and when the two responses arrive each call resolves to the token of its
  own response: the refreshes are not coalesced.
\<close>

theorem concurrent_calls_refresh_twice:
  "call (sample_world issuing_server) GetAccessToken
     (call (sample_world issuing_server) GetAccessToken (sample_client, []))
   = (sample_client\<lparr>sent := [token_request sample_client, token_request sample_client]\<rparr>,
      [Awaiting GetAccessToken 0, Awaiting GetAccessToken 1])
   \<and> settle (sample_world issuing_server) 1
       (settle (sample_world issuing_server) 0
         (sample_client\<lparr>sent := [token_request sample_client, token_request sample_client]\<rparr>,
          [Awaiting GetAccessToken 0, Awaiting GetAccessToken 1]))
   = (sample_client
        \<lparr>accessToken := JStr ''access_1'', agentSecretToken := JStr ''secret_1'',
         tokenExpiration := JNum (Num 3601000), ticks := 2,
         sent := [token_request sample_client, token_request sample_client]\<rparr>,
      [Settled (Inr (JStr ''access_0'')), Settled (Inr (JStr ''access_1''))])"
proof -
  have c: "call (sample_world issuing_server) GetAccessToken
     (call (sample_world issuing_server) GetAccessToken (sample_client, []))
   = (sample_client\<lparr>sent := [token_request sample_client, token_request sample_client]\<rparr>,
      [Awaiting GetAccessToken 0, Awaiting GetAccessToken 1])"
    by (simp add: call_def needs_fetch_def token_of_def sample_client_def new_client_def send_def
      token_request_def)
  have s0: "settle (sample_world issuing_server) 0
         (sample_client\<lparr>sent := [token_request sample_client, token_request sample_client]\<rparr>,
          [Awaiting GetAccessToken 0, Awaiting GetAccessToken 1])
      = (sample_client
        \<lparr>accessToken := JStr ''access_0'', agentSecretToken := JStr ''secret_0'',
         tokenExpiration := JNum (Num 3600000), ticks := 1,
         sent := [token_request sample_client, token_request sample_client]\<rparr>,
      [Settled (Inr (JStr ''access_0'')), Awaiting GetAccessToken 1])"
    by (simp add: settle_def sample_world_def issuing_server_def fetchTokens_settle_def
        ok_response_def token_body_def requiredFields_def date_now_def string_of_nat_digit
        token_or_throw_def token_of_def sample_client_def new_client_def)
  have s1: "settle (sample_world issuing_server) 1
      (sample_client
        \<lparr>accessToken := JStr ''access_0'', agentSecretToken := JStr ''secret_0'',
         tokenExpiration := JNum (Num 3600000), ticks := 1,
         sent := [token_request sample_client, token_request sample_client]\<rparr>,
      [Settled (Inr (JStr ''access_0'')), Awaiting GetAccessToken 1])
      = (sample_client
        \<lparr>accessToken := JStr ''access_1'', agentSecretToken := JStr ''secret_1'',
         tokenExpiration := JNum (Num 3601000), ticks := 2,
         sent := [token_request sample_client, token_request sample_client]\<rparr>,
      [Settled (Inr (JStr ''access_0'')), Settled (Inr (JStr ''access_1''))])"
    by (simp add: settle_def sample_world_def issuing_server_def fetchTokens_settle_def
        ok_response_def token_body_def requiredFields_def date_now_def string_of_nat_digit
        token_or_throw_def token_of_def sample_client_def new_client_def)
  show ?thesis
    unfolding c s0 s1 by simp
qed

end
